theory Spec2Isabelle
  imports Main "HOL-Library.Word"
begin

section \<open>Python values, exceptions and library types\<close>

text \<open>
  The exceptions that the cleanup code of \<^verbatim>\<open>admin/cleanup.py\<close> can meet. An exception
  is the \<open>Inl\<close> side of a result; \<open>LibraryError\<close> stands for any exception class of
  libcloud, dateutil or the network that the code never names in an \<^verbatim>\<open>except\<close> clause.
\<close>

datatype exn =
    KeyError
  | TypeError
  | AttributeError
  | OverflowError
  | UsageError string
  | SystemExit int
  | LibraryError string

text \<open>
  \<^verbatim>\<open>datetime.timedelta\<close> is a signed count of microseconds. A \<^verbatim>\<open>datetime.datetime\<close> is its
  wall-clock reading, in microseconds since 0001-01-01T00:00:00, and the UTC offset of
  its \<^verbatim>\<open>tzinfo\<close> (\<open>None\<close> for a naive value). Python represents the years 1 to 9999 only,
  which are 3652059 days.
\<close>

type_synonym timedelta = int

record datetime =
  wall :: int
  utcoffset :: "int option"

definition datetime_max :: int where
  "datetime_max = 3652059 * 86400 * 1000000 - 1"

text \<open>\<^verbatim>\<open>datetime.now(tzutc())\<close>, the clock reading being an input of the run.\<close>

definition datetime_now :: "int \<Rightarrow> datetime" where
  "datetime_now clock = \<lparr>wall = clock, utcoffset = Some 0\<rparr>"

text \<open>\<^verbatim>\<open>d.replace(tzinfo=tzutc())\<close> keeps the wall-clock fields.\<close>

definition replace_tzinfo_utc :: "datetime \<Rightarrow> datetime" where
  "replace_tzinfo_utc d = d\<lparr>utcoffset := Some 0\<rparr>"

text \<open>
  \<^verbatim>\<open>d - delta\<close>: arithmetic on the wall-clock fields, \<^verbatim>\<open>OverflowError\<close> outside the
  representable years.
\<close>

definition datetime_sub_timedelta :: "datetime \<Rightarrow> timedelta \<Rightarrow> exn + datetime" where
  "datetime_sub_timedelta d delta =
     (let w = wall d - delta
      in if 0 \<le> w \<and> w \<le> datetime_max then Inr (d\<lparr>wall := w\<rparr>) else Inl OverflowError)"

text \<open>
  \<^verbatim>\<open>a - b\<close> and \<^verbatim>\<open>a < b\<close> on two datetimes: naive with naive on the wall clock, aware
  with aware on UTC, and \<^verbatim>\<open>TypeError\<close> when one is naive and the other aware.
\<close>

definition datetime_sub :: "datetime \<Rightarrow> datetime \<Rightarrow> exn + timedelta" where
  "datetime_sub a b =
     (case (utcoffset a, utcoffset b) of
        (None, None) \<Rightarrow> Inr (wall a - wall b)
      | (Some oa, Some ob) \<Rightarrow> Inr ((wall a - oa) - (wall b - ob))
      | _ \<Rightarrow> Inl TypeError)"

definition datetime_lt :: "datetime \<Rightarrow> datetime \<Rightarrow> exn + bool" where
  "datetime_lt a b =
     (case (utcoffset a, utcoffset b) of
        (None, None) \<Rightarrow> Inr (wall a < wall b)
      | (Some oa, Some ob) \<Rightarrow> Inr (wall a - oa < wall b - ob)
      | _ \<Rightarrow> Inl TypeError)"

text \<open>
  The values found in the \<^verbatim>\<open>extra\<close> dictionary of a libcloud node or volume: \<^verbatim>\<open>None\<close>,
  a string, a datetime, or a dictionary of tags.
\<close>

datatype pyval =
    PNone
  | PStr string
  | PDatetime datetime
  | PDict "(string \<times> string) list"

text \<open>\<^verbatim>\<open>d[k]\<close> and \<^verbatim>\<open>d.get(k, dflt)\<close> on a dictionary.\<close>

definition getitem :: "('k \<times> 'v) list \<Rightarrow> 'k \<Rightarrow> exn + 'v" where
  "getitem d k = (case map_of d k of None \<Rightarrow> Inl KeyError | Some v \<Rightarrow> Inr v)"

definition dict_get :: "('k \<times> 'v) list \<Rightarrow> 'k \<Rightarrow> 'v \<Rightarrow> 'v" where
  "dict_get d k dflt = (case map_of d k of None \<Rightarrow> dflt | Some v \<Rightarrow> v)"

text \<open>
  Sequencing: an exception of the first computation propagates, otherwise the rest runs
  on its value.
\<close>

definition propagate :: "exn + 'a \<Rightarrow> ('a \<Rightarrow> exn + 'b) \<Rightarrow> exn + 'b" where
  "propagate m f = (case m of Inl e \<Rightarrow> Inl e | Inr x \<Rightarrow> f x)"

text \<open>\<^verbatim>\<open>now - created\<close>, where \<^verbatim>\<open>created\<close> is whatever the dictionary held.\<close>

definition datetime_sub_pyval :: "datetime \<Rightarrow> pyval \<Rightarrow> exn + timedelta" where
  "datetime_sub_pyval a v = (case v of PDatetime b \<Rightarrow> datetime_sub a b | _ \<Rightarrow> Inl TypeError)"

text \<open>
  \<^verbatim>\<open>uuid.UUID(s).node\<close>: the low 48 bits of the 128-bit value. Parsing the string is the
  standard library's and is a parameter \<open>UUID\<close> of the model (\<open>None\<close> when it raises).
\<close>

type_synonym uuid = "128 word"

definition uuid_node :: "uuid \<Rightarrow> int" where
  "uuid_node u = uint (and u (mask 48))"

text \<open>
  Modelled from the spec: libcloud's \<^verbatim>\<open>NodeState\<close> is not part of the repository. The
  spec names the lifecycle states Running, Terminated and Stopped; the other
  constructors are the remaining states of the libcloud release the code was written for.
\<close>

datatype NodeState = RUNNING | REBOOTING | TERMINATED | PENDING | UNKNOWN | STOPPED

datatype Provider = RACKSPACE | EC2

record node =
  node_id :: string
  node_name :: string
  node_state :: NodeState
  node_extra :: "(string \<times> pyval) list"

text \<open>
  A volume carries, of its driver, the attributes that \<^verbatim>\<open>_describe_volume\<close> reads:
  \<^verbatim>\<open>name\<close>, and \<^verbatim>\<open>region\<close> or \<^verbatim>\<open>region_name\<close> when the driver has them.
\<close>

record volume =
  volume_id :: string
  volume_extra :: "(string \<times> pyval) list"
  volume_driver_name :: string
  volume_driver_region :: "string option"
  volume_driver_region_name :: "string option"

text \<open>
  A libcloud driver, as far as the cleanup uses it: what \<^verbatim>\<open>list_nodes()\<close> and
  \<^verbatim>\<open>list_volumes()\<close> answer in this run.
\<close>

record driver =
  list_nodes :: "exn + node list"
  list_volumes :: "exn + volume list"

text \<open>The parsed YAML configuration: each top-level key is present or absent.\<close>

record config =
  config_rackspace :: "(string \<times> string) list option"
  config_aws :: "(string \<times> string) list option"
  config_metadata :: "(string \<times> string) list option"
  config_extra_aws :: "(string \<times> string) list list option"

text \<open>\<^verbatim>\<open>config[key]\<close> for a top-level key.\<close>

definition config_getitem :: "'a option \<Rightarrow> exn + 'a" where
  "config_getitem entry = (case entry of None \<Rightarrow> Inl KeyError | Some v \<Rightarrow> Inr v)"

section \<open>Drivers\<close>

text \<open>
  \<^verbatim>\<open>get_driver(Provider.X)(user, key, region=region)\<close> is libcloud's; it is the parameter
  \<open>connect\<close>.
\<close>

type_synonym connect = "Provider \<Rightarrow> string \<Rightarrow> string \<Rightarrow> string \<Rightarrow> exn + driver"

definition get_rackspace_driver :: "connect \<Rightarrow> (string \<times> string) list \<Rightarrow> exn + driver" where
  "get_rackspace_driver connect rackspace =
     propagate (getitem rackspace ''username'') (\<lambda>username.
     propagate (getitem rackspace ''key'') (\<lambda>key.
     propagate (getitem rackspace ''region'') (\<lambda>region.
       connect RACKSPACE username key region)))"

definition get_ec2_driver :: "connect \<Rightarrow> (string \<times> string) list \<Rightarrow> exn + driver" where
  "get_ec2_driver connect aws =
     propagate (getitem aws ''access_key'') (\<lambda>access_key.
     propagate (getitem aws ''secret_access_token'') (\<lambda>secret_access_token.
     propagate (getitem aws ''region'') (\<lambda>region.
       connect EC2 access_key secret_access_token region)))"

section \<open>Instances: \<^verbatim>\<open>CleanAcceptanceInstances\<close>\<close>

text \<open>\<^verbatim>\<open>get_creation_time(node)\<close>; \<open>parse_date\<close> is dateutil's parser.\<close>

definition get_creation_time ::
  "(pyval \<Rightarrow> exn + datetime) \<Rightarrow> node \<Rightarrow> exn + datetime option" where
  "get_creation_time parse_date node =
     (let date_string =
        dict_get (node_extra node) ''created'' (dict_get (node_extra node) ''launch_time'' PNone)
      in if date_string = PNone then Inr None
         else (case parse_date date_string of Inl e \<Rightarrow> Inl e | Inr d \<Rightarrow> Inr (Some d)))"

record CleanAcceptanceInstances =
  instances_lag :: timedelta
  instances_prefixes :: "string list"

text \<open>The dictionary \<^verbatim>\<open>{'destroyed': ..., 'kept': ...}\<close> that \<^verbatim>\<open>start\<close> returns.\<close>

record node_actions =
  destroyed :: "node list"
  kept :: "node list"

text \<open>\<^verbatim>\<open>s.startswith(p)\<close>, and \<^verbatim>\<open>s.startswith(ps)\<close> for a tuple of prefixes.\<close>

fun startswith :: "string \<Rightarrow> string \<Rightarrow> bool" where
  "startswith s [] = True"
| "startswith [] (c # p) = False"
| "startswith (x # s) (c # p) = (x = c \<and> startswith s p)"

definition startswith_tuple :: "string \<Rightarrow> string list \<Rightarrow> bool" where
  "startswith_tuple s ps = list_ex (startswith s) ps"

text \<open>The loop \<^verbatim>\<open>for driver in drivers: all_nodes += driver.list_nodes()\<close>.\<close>

fun list_all_nodes :: "driver list \<Rightarrow> node list \<Rightarrow> exn + node list" where
  "list_all_nodes [] all_nodes = Inr all_nodes"
| "list_all_nodes (driver # drivers) all_nodes =
     (case list_nodes driver of
        Inl e \<Rightarrow> Inl e
      | Inr nodes \<Rightarrow> list_all_nodes drivers (all_nodes @ nodes))"

text \<open>The list comprehension that selects \<^verbatim>\<open>test_nodes\<close>.\<close>

definition test_nodes :: "string list \<Rightarrow> node list \<Rightarrow> node list" where
  "test_nodes prefixes all_nodes =
     filter (\<lambda>node. startswith_tuple (node_name node) prefixes
                    \<and> (node_state node = RUNNING \<or> node_state node = TERMINATED))
       all_nodes"

text \<open>
  The condition of the loop body, with the assignment before it:
  \<^verbatim>\<open>creation_time is not None and creation_time < cutoff\<close>.
\<close>

definition node_is_old ::
  "(pyval \<Rightarrow> exn + datetime) \<Rightarrow> datetime \<Rightarrow> node \<Rightarrow> exn + bool" where
  "node_is_old parse_date cutoff node =
     propagate (get_creation_time parse_date node) (\<lambda>creation_time.
       case creation_time of
         None \<Rightarrow> Inr False
       | Some t \<Rightarrow> datetime_lt t cutoff)"

text \<open>The loop that splits the test nodes into destroyed and kept ones.\<close>

fun split_nodes ::
  "(pyval \<Rightarrow> exn + datetime) \<Rightarrow> datetime \<Rightarrow> node list \<Rightarrow> node list \<Rightarrow> node list
   \<Rightarrow> exn + node_actions" where
  "split_nodes parse_date cutoff [] destroyed_nodes kept_nodes =
     Inr \<lparr>destroyed = destroyed_nodes, kept = kept_nodes\<rparr>"
| "split_nodes parse_date cutoff (node # nodes) destroyed_nodes kept_nodes =
     propagate (node_is_old parse_date cutoff node) (\<lambda>old.
       if old
       then split_nodes parse_date cutoff nodes (destroyed_nodes @ [node]) kept_nodes
       else split_nodes parse_date cutoff nodes destroyed_nodes (kept_nodes @ [node]))"

text \<open>
  \<^verbatim>\<open>CleanAcceptanceInstances.start(config, dry_run)\<close>. The clock and the answers of the
  cloud providers are inputs; \<open>dry_run\<close> is accepted and never read, as in the source.
\<close>

definition instances_start ::
  "connect \<Rightarrow> (pyval \<Rightarrow> exn + datetime) \<Rightarrow> int \<Rightarrow> CleanAcceptanceInstances \<Rightarrow> config \<Rightarrow> bool
   \<Rightarrow> exn + node_actions" where
  "instances_start connect parse_date clock self config dry_run =
     propagate (config_getitem (config_rackspace config)) (\<lambda>rackspace_config.
     propagate (get_rackspace_driver connect rackspace_config) (\<lambda>rackspace.
     propagate (config_getitem (config_aws config)) (\<lambda>aws_config.
     propagate (get_ec2_driver connect aws_config) (\<lambda>ec2.
     propagate (config_getitem (config_metadata config)) (\<lambda>metadata.
     propagate (getitem metadata ''creator'') (\<lambda>creator.
     propagate (datetime_sub_timedelta (datetime_now clock) (instances_lag self)) (\<lambda>cutoff.
     propagate (list_all_nodes [rackspace, ec2] []) (\<lambda>all_nodes.
       split_nodes parse_date cutoff
         (test_nodes (map (\<lambda>prefix. prefix @ creator) (instances_prefixes self)) all_nodes)
         [] []))))))))"

section \<open>Volumes: \<^verbatim>\<open>CleanVolumes\<close>\<close>

text \<open>
  \<^verbatim>\<open>_get_volume_creation_time(volume)\<close>: the AWS field as it is, else the Rackspace
  field parsed and labelled UTC. A missing \<^verbatim>\<open>created_at\<close> raises \<^verbatim>\<open>KeyError\<close> from
  inside the handler.
\<close>

definition get_volume_creation_time ::
  "(pyval \<Rightarrow> exn + datetime) \<Rightarrow> volume \<Rightarrow> exn + pyval" where
  "get_volume_creation_time parse_date volume =
     (case getitem (volume_extra volume) ''create_time'' of
        Inr created \<Rightarrow> Inr created
      | Inl e \<Rightarrow>
          if e = KeyError
          then propagate (getitem (volume_extra volume) ''created_at'') (\<lambda>created_at.
               propagate (parse_date created_at) (\<lambda>d.
                 Inr (PDatetime (replace_tzinfo_utc d))))
          else Inl e)"

text \<open>
  \<^verbatim>\<open>_get_tag(volume, tag_name)\<close>:
  \<^verbatim>\<open>volume.extra.get("tags", volume.extra.get("metadata"))[tag_name]\<close>. Subscripting
  \<^verbatim>\<open>None\<close>, or a string with a string, is a \<^verbatim>\<open>TypeError\<close>.
\<close>

definition get_tag :: "volume \<Rightarrow> string \<Rightarrow> exn + string" where
  "get_tag volume tag_name =
     (case dict_get (volume_extra volume) ''tags''
             (dict_get (volume_extra volume) ''metadata'' PNone) of
        PDict tags \<Rightarrow> getitem tags tag_name
      | _ \<Rightarrow> Inl TypeError)"

record CleanVolumes =
  volumes_lag :: timedelta
  marker :: int

definition get_cluster_id :: "volume \<Rightarrow> exn + string" where
  "get_cluster_id volume = get_tag volume ''flocker-cluster-id''"

text \<open>
  \<^verbatim>\<open>_is_test_cluster\<close>: the bare \<^verbatim>\<open>except\<close> turns every failure of \<^verbatim>\<open>UUID(cluster_id)\<close>
  into \<^verbatim>\<open>False\<close>.
\<close>

definition is_test_cluster :: "(string \<Rightarrow> uuid option) \<Rightarrow> CleanVolumes \<Rightarrow> string \<Rightarrow> bool" where
  "is_test_cluster UUID self cluster_id =
     (case UUID cluster_id of
        Some u \<Rightarrow> uuid_node u = marker self
      | None \<Rightarrow> False)"

text \<open>\<^verbatim>\<open>_is_test_volume\<close>: only \<^verbatim>\<open>KeyError\<close> is caught.\<close>

definition is_test_volume ::
  "(string \<Rightarrow> uuid option) \<Rightarrow> CleanVolumes \<Rightarrow> volume \<Rightarrow> exn + bool" where
  "is_test_volume UUID self volume =
     (case get_cluster_id volume of
        Inl e \<Rightarrow> if e = KeyError then Inr False else Inl e
      | Inr cluster_id \<Rightarrow> Inr (is_test_cluster UUID self cluster_id))"

record VolumeActions =
  destroy :: "volume list"
  keep :: "volume list"

text \<open>
  The condition of the loop body of \<^verbatim>\<open>_filter_test_volumes\<close>, with the assignment
  before it. The creation time is read first; \<^verbatim>\<open>and\<close> evaluates the age only for a test
  volume.
\<close>

definition volume_is_old_test ::
  "(string \<Rightarrow> uuid option) \<Rightarrow> (pyval \<Rightarrow> exn + datetime) \<Rightarrow> CleanVolumes \<Rightarrow> datetime
   \<Rightarrow> timedelta \<Rightarrow> volume \<Rightarrow> exn + bool" where
  "volume_is_old_test UUID parse_date self now maximum_age volume =
     propagate (get_volume_creation_time parse_date volume) (\<lambda>created.
     propagate (is_test_volume UUID self volume) (\<lambda>is_test.
       if is_test
       then propagate (datetime_sub_pyval now created) (\<lambda>age. Inr (age > maximum_age))
       else Inr False))"

text \<open>The loop of \<^verbatim>\<open>_filter_test_volumes\<close>.\<close>

fun filter_test_volumes_loop ::
  "(string \<Rightarrow> uuid option) \<Rightarrow> (pyval \<Rightarrow> exn + datetime) \<Rightarrow> CleanVolumes \<Rightarrow> datetime
   \<Rightarrow> timedelta \<Rightarrow> volume list \<Rightarrow> volume list \<Rightarrow> volume list \<Rightarrow> exn + VolumeActions" where
  "filter_test_volumes_loop UUID parse_date self now maximum_age [] destroy_list keep_list =
     Inr \<lparr>destroy = destroy_list, keep = keep_list\<rparr>"
| "filter_test_volumes_loop UUID parse_date self now maximum_age (volume # volumes)
     destroy_list keep_list =
     propagate (volume_is_old_test UUID parse_date self now maximum_age volume) (\<lambda>old_test.
       if old_test
       then filter_test_volumes_loop UUID parse_date self now maximum_age volumes
              (destroy_list @ [volume]) keep_list
       else filter_test_volumes_loop UUID parse_date self now maximum_age volumes
              destroy_list (keep_list @ [volume]))"

definition filter_test_volumes ::
  "(string \<Rightarrow> uuid option) \<Rightarrow> (pyval \<Rightarrow> exn + datetime) \<Rightarrow> int \<Rightarrow> CleanVolumes
   \<Rightarrow> timedelta \<Rightarrow> volume list \<Rightarrow> exn + VolumeActions" where
  "filter_test_volumes UUID parse_date clock self maximum_age volumes =
     filter_test_volumes_loop UUID parse_date self (datetime_now clock) maximum_age volumes [] []"

text \<open>
  \<^verbatim>\<open>_get_cloud_drivers\<close>: \<^verbatim>\<open>base_ec2.copy()\<close> updated with an extra account; the extra
  entries come first in the association list, so they override.
\<close>

fun extra_aws_drivers ::
  "connect \<Rightarrow> (string \<times> string) list \<Rightarrow> (string \<times> string) list list \<Rightarrow> driver list
   \<Rightarrow> exn + driver list" where
  "extra_aws_drivers connect base_ec2 [] drivers = Inr drivers"
| "extra_aws_drivers connect base_ec2 (extra # extras) drivers =
     propagate (get_ec2_driver connect (extra @ base_ec2)) (\<lambda>extra_driver.
       extra_aws_drivers connect base_ec2 extras (drivers @ [extra_driver]))"

definition get_cloud_drivers :: "connect \<Rightarrow> config \<Rightarrow> exn + driver list" where
  "get_cloud_drivers connect config =
     propagate (config_getitem (config_aws config)) (\<lambda>base_ec2.
     propagate (config_getitem (config_rackspace config)) (\<lambda>rackspace_config.
     propagate (get_rackspace_driver connect rackspace_config) (\<lambda>rackspace.
     propagate (get_ec2_driver connect base_ec2) (\<lambda>ec2.
       extra_aws_drivers connect base_ec2
         (case config_extra_aws config of None \<Rightarrow> [] | Some extras \<Rightarrow> extras)
         [rackspace, ec2]))))"

fun get_cloud_volumes :: "driver list \<Rightarrow> volume list \<Rightarrow> exn + volume list" where
  "get_cloud_volumes [] volumes = Inr volumes"
| "get_cloud_volumes (driver # drivers) volumes =
     propagate (list_volumes driver) (\<lambda>listed.
       get_cloud_volumes drivers (volumes @ listed))"

text \<open>\<^verbatim>\<open>CleanVolumes.start(config, dry_run)\<close>; \<open>dry_run\<close> is never read.\<close>

definition volumes_start ::
  "connect \<Rightarrow> (string \<Rightarrow> uuid option) \<Rightarrow> (pyval \<Rightarrow> exn + datetime) \<Rightarrow> int \<Rightarrow> CleanVolumes
   \<Rightarrow> config \<Rightarrow> bool \<Rightarrow> exn + VolumeActions" where
  "volumes_start connect UUID parse_date clock self config dry_run =
     propagate (get_cloud_drivers connect config) (\<lambda>drivers.
     propagate (get_cloud_volumes drivers []) (\<lambda>volumes.
       filter_test_volumes UUID parse_date clock self (volumes_lag self) volumes))"

section \<open>Reporting, exit signal and execution\<close>

text \<open>
  The list \<^verbatim>\<open>resource_actions\<close> holds what the planners return: a \<^verbatim>\<open>VolumeActions\<close>
  object, or the dictionary of \<^verbatim>\<open>CleanAcceptanceInstances.start\<close>. A dictionary has
  no attribute \<^verbatim>\<open>destroy\<close>.
\<close>

datatype action_group =
    VolumeActionsObj VolumeActions
  | NodeActionsDict node_actions

definition getattr_destroy :: "action_group \<Rightarrow> exn + volume list" where
  "getattr_destroy action_group =
     (case action_group of
        VolumeActionsObj actions \<Rightarrow> Inr (destroy actions)
      | NodeActionsDict d \<Rightarrow> Inl AttributeError)"

text \<open>The JSON document, as a tree; an object lists its keys in sorted order.\<close>

datatype json = JNull | JString string | JArray "json list" | JObject "(string \<times> json) list"

text \<open>
  \<^verbatim>\<open>_format_time\<close>: \<^verbatim>\<open>datetime.isoformat(when)\<close> is a \<^verbatim>\<open>TypeError\<close> on a value that is
  not a datetime. The formatting itself is the parameter \<open>isoformat\<close>.
\<close>

definition format_time :: "(datetime \<Rightarrow> string) \<Rightarrow> pyval \<Rightarrow> exn + json" where
  "format_time isoformat when =
     (case when of
        PNone \<Rightarrow> Inr JNull
      | PDatetime d \<Rightarrow> Inr (JString (isoformat d))
      | _ \<Rightarrow> Inl TypeError)"

text \<open>\<^verbatim>\<open>_get_volume_region\<close>: \<^verbatim>\<open>or\<close> skips \<^verbatim>\<open>None\<close> and the empty string.\<close>

definition get_volume_region :: "volume \<Rightarrow> string option" where
  "get_volume_region volume =
     (case volume_driver_region volume of
        Some region \<Rightarrow> if region \<noteq> [] then Some region else volume_driver_region_name volume
      | None \<Rightarrow> volume_driver_region_name volume)"

text \<open>\<^verbatim>\<open>_describe_volume\<close>; \<open>repr\<close> is Python's \<^verbatim>\<open>repr\<close> of the \<^verbatim>\<open>extra\<close> dictionary.\<close>

definition describe_volume ::
  "(datetime \<Rightarrow> string) \<Rightarrow> ((string \<times> pyval) list \<Rightarrow> string) \<Rightarrow> (pyval \<Rightarrow> exn + datetime)
   \<Rightarrow> volume \<Rightarrow> exn + json" where
  "describe_volume isoformat repr parse_date volume =
     propagate (get_volume_creation_time parse_date volume) (\<lambda>created.
     propagate (format_time isoformat created) (\<lambda>creation_time.
       Inr (JObject
         [(''creation_time'', creation_time),
          (''extra'', JString (repr (volume_extra volume))),
          (''id'', JString (volume_id volume)),
          (''provider'', JString (volume_driver_name volume)),
          (''region'', case get_volume_region volume of None \<Rightarrow> JNull | Some r \<Rightarrow> JString r)])))"

text \<open>
  \<^verbatim>\<open>_ActionEncoder\<close>: \<^verbatim>\<open>default\<close> knows \<^verbatim>\<open>VolumeActions\<close> and \<^verbatim>\<open>StorageVolume\<close>; for a
  libcloud \<^verbatim>\<open>Node\<close> it falls through to \<^verbatim>\<open>json.JSONEncoder.default\<close>, which raises
  \<^verbatim>\<open>TypeError\<close>.
\<close>

fun encode_volumes ::
  "(datetime \<Rightarrow> string) \<Rightarrow> ((string \<times> pyval) list \<Rightarrow> string) \<Rightarrow> (pyval \<Rightarrow> exn + datetime)
   \<Rightarrow> volume list \<Rightarrow> exn + json list" where
  "encode_volumes isoformat repr parse_date [] = Inr []"
| "encode_volumes isoformat repr parse_date (volume # volumes) =
     propagate (describe_volume isoformat repr parse_date volume) (\<lambda>j.
     propagate (encode_volumes isoformat repr parse_date volumes) (\<lambda>js.
       Inr (j # js)))"

fun encode_nodes :: "node list \<Rightarrow> exn + json list" where
  "encode_nodes [] = Inr []"
| "encode_nodes (node # nodes) = Inl TypeError"

definition encode_action_group ::
  "(datetime \<Rightarrow> string) \<Rightarrow> ((string \<times> pyval) list \<Rightarrow> string) \<Rightarrow> (pyval \<Rightarrow> exn + datetime)
   \<Rightarrow> action_group \<Rightarrow> exn + json" where
  "encode_action_group isoformat repr parse_date action_group =
     (case action_group of
        VolumeActionsObj actions \<Rightarrow>
          propagate (encode_volumes isoformat repr parse_date (destroy actions)) (\<lambda>d.
          propagate (encode_volumes isoformat repr parse_date (keep actions)) (\<lambda>k.
            Inr (JObject [(''destroy'', JArray d), (''keep'', JArray k)])))
      | NodeActionsDict actions \<Rightarrow>
          propagate (encode_nodes (destroyed actions)) (\<lambda>d.
          propagate (encode_nodes (kept actions)) (\<lambda>k.
            Inr (JObject [(''destroyed'', JArray d), (''kept'', JArray k)]))))"

fun encode_action_groups ::
  "(datetime \<Rightarrow> string) \<Rightarrow> ((string \<times> pyval) list \<Rightarrow> string) \<Rightarrow> (pyval \<Rightarrow> exn + datetime)
   \<Rightarrow> action_group list \<Rightarrow> exn + json list" where
  "encode_action_groups isoformat repr parse_date [] = Inr []"
| "encode_action_groups isoformat repr parse_date (action_group # actions) =
     propagate (encode_action_group isoformat repr parse_date action_group) (\<lambda>j.
     propagate (encode_action_groups isoformat repr parse_date actions) (\<lambda>js.
       Inr (j # js)))"

text \<open>\<^verbatim>\<open>print_actions\<close>: the document written to standard output.\<close>

definition print_actions ::
  "(datetime \<Rightarrow> string) \<Rightarrow> ((string \<times> pyval) list \<Rightarrow> string) \<Rightarrow> (pyval \<Rightarrow> exn + datetime)
   \<Rightarrow> action_group list \<Rightarrow> exn + json" where
  "print_actions isoformat repr parse_date actions =
     propagate (encode_action_groups isoformat repr parse_date actions) (\<lambda>js.
       Inr (JArray js))"

text \<open>\<^verbatim>\<open>do_exit\<close>: returns, or raises \<^verbatim>\<open>SystemExit(1)\<close> at the first non-empty group.\<close>

fun do_exit :: "action_group list \<Rightarrow> exn + unit" where
  "do_exit [] = Inr ()"
| "do_exit (action_group # actions) =
     propagate (getattr_destroy action_group) (\<lambda>d.
       if length d > 0 then Inl (SystemExit 1) else do_exit actions)"

text \<open>
  The command-line options after \<^verbatim>\<open>parseOptions\<close>, which is twisted's and a parameter
  (\<open>Inl (UsageError msg)\<close> when it raises a usage error).
\<close>

record options =
  opt_dry_run :: bool
  opt_config_file :: config
  opt_volume_lag :: timedelta
  opt_instance_lag :: timedelta
  opt_marker :: int
  opt_instance_name_prefixes :: "string list"

definition is_UsageError :: "exn \<Rightarrow> bool" where
  "is_UsageError e = (case e of UsageError msg \<Rightarrow> True | _ \<Rightarrow> False)"

text \<open>
  \<^verbatim>\<open>cleanup_cloud_resources_main\<close> as the source has it: the volume planner and the
  call of \<^verbatim>\<open>perform_actions\<close> are commented out there.
\<close>

definition cleanup_cloud_resources_main ::
  "(string list \<Rightarrow> exn + options) \<Rightarrow> connect \<Rightarrow> (pyval \<Rightarrow> exn + datetime)
   \<Rightarrow> (datetime \<Rightarrow> string) \<Rightarrow> ((string \<times> pyval) list \<Rightarrow> string) \<Rightarrow> int
   \<Rightarrow> string list \<Rightarrow> exn + unit" where
  "cleanup_cloud_resources_main parseOptions connect parse_date isoformat repr clock args =
     (case parseOptions args of
        Inl e \<Rightarrow> if is_UsageError e then Inl (SystemExit 1) else Inl e
      | Inr options \<Rightarrow>
          propagate
            (instances_start connect parse_date clock
               \<lparr>instances_lag = opt_instance_lag options,
                instances_prefixes = opt_instance_name_prefixes options\<rparr>
               (opt_config_file options) (opt_dry_run options)) (\<lambda>instance_actions.
          propagate
            (print_actions isoformat repr parse_date [NodeActionsDict instance_actions]) (\<lambda>printed.
            do_exit [NodeActionsDict instance_actions])))"

text \<open>
  The exit status of the Python process: 0 when the main function returns, the code of
  a \<^verbatim>\<open>SystemExit\<close>, and 1 for any other uncaught exception.
\<close>

definition exit_status :: "exn + unit \<Rightarrow> int" where
  "exit_status r =
     (case r of
        Inr u \<Rightarrow> 0
      | Inl (SystemExit code) \<Rightarrow> code
      | Inl e \<Rightarrow> 1)"

text \<open>
  The executor. The state is the cloud, the trace of \<^verbatim>\<open>resource.destroy()\<close> calls made
  so far (each with the exception it raised, if any), and the log that \<^verbatim>\<open>twisted.python.log.err\<close> writes. What a destroy call does to
  the cloud, and whether it raises, is the parameter \<open>destroy_call\<close>.
\<close>

record 'w executor_state =
  cloud :: 'w
  attempts :: "(volume \<times> exn option) list"
  err_log :: "(exn \<times> string) list"

definition destroy_resource ::
  "(volume \<Rightarrow> 'w \<Rightarrow> exn option \<times> 'w) \<Rightarrow> volume \<Rightarrow> 'w executor_state \<Rightarrow> 'w executor_state" where
  "destroy_resource destroy_call resource s =
     (case destroy_call resource (cloud s) of
        (None, w) \<Rightarrow> s\<lparr>cloud := w, attempts := attempts s @ [(resource, None)]\<rparr>
      | (Some e, w) \<Rightarrow>
          s\<lparr>cloud := w, attempts := attempts s @ [(resource, Some e)],
            err_log := err_log s @ [(e, ''Destroying resource.'')]\<rparr>)"

fun destroy_resources ::
  "(volume \<Rightarrow> 'w \<Rightarrow> exn option \<times> 'w) \<Rightarrow> volume list \<Rightarrow> 'w executor_state \<Rightarrow> 'w executor_state" where
  "destroy_resources destroy_call [] s = s"
| "destroy_resources destroy_call (resource # resources) s =
     destroy_resources destroy_call resources (destroy_resource destroy_call resource s)"

text \<open>
  \<^verbatim>\<open>perform_actions\<close>: the exception of a group without the attribute \<^verbatim>\<open>destroy\<close>
  ends the loop; the state reached so far is returned with it.
\<close>

fun perform_actions ::
  "(volume \<Rightarrow> 'w \<Rightarrow> exn option \<times> 'w) \<Rightarrow> action_group list \<Rightarrow> 'w executor_state
   \<Rightarrow> exn option \<times> 'w executor_state" where
  "perform_actions destroy_call [] s = (None, s)"
| "perform_actions destroy_call (action_group # resource_actions) s =
     (case getattr_destroy action_group of
        Inl e \<Rightarrow> (Some e, s)
      | Inr resources \<Rightarrow>
          perform_actions destroy_call resource_actions
            (destroy_resources destroy_call resources s))"

section \<open>A concrete run\<close>

text \<open>
  The scenario of the specification: the clock reads 2015-06-01T00:00:00Z, the creator is
  \<^verbatim>\<open>alice\<close>, the marker is \<^verbatim>\<open>0xABC123\<close>, and resources were created one or three hours
  before. The library parameters are instantiated by small tables.
\<close>

definition hour :: timedelta where
  "hour = 3600000000"

definition ex_clock :: int where
  "ex_clock = 63568713600000000"

definition ex_parse_date :: "pyval \<Rightarrow> exn + datetime" where
  "ex_parse_date v =
     (if v = PStr ''2015-05-31T21:00:00Z''
      then Inr \<lparr>wall = ex_clock - 3 * hour, utcoffset = Some 0\<rparr>
      else if v = PStr ''2015-05-31T23:00:00Z''
      then Inr \<lparr>wall = ex_clock - hour, utcoffset = Some 0\<rparr>
      else Inl (LibraryError ''ValueError''))"

definition ex_UUID :: "string \<Rightarrow> uuid option" where
  "ex_UUID s =
     (if s = ''5f0d6c7a-1b2c-4d3e-8f90-000000abc123'' then Some 0x5f0d6c7a1b2c4d3e8f90000000abc123
      else if s = ''5f0d6c7a-1b2c-4d3e-8f90-000000def456'' then Some 0x5f0d6c7a1b2c4d3e8f90000000def456
      else None)"

definition ex_node_terminated :: node where
  "ex_node_terminated =
     \<lparr>node_id = ''i-1'', node_name = ''acceptance-test-alice-worker-1'',
      node_state = TERMINATED, node_extra = [(''created'', PStr ''2015-05-31T21:00:00Z'')]\<rparr>"

definition ex_node_stopped :: node where
  "ex_node_stopped =
     \<lparr>node_id = ''i-2'', node_name = ''acceptance-test-alice-worker-1'',
      node_state = STOPPED, node_extra = [(''created'', PStr ''2015-05-31T21:00:00Z'')]\<rparr>"

definition ex_node_young :: node where
  "ex_node_young =
     \<lparr>node_id = ''i-3'', node_name = ''client-test-alice-7'',
      node_state = RUNNING, node_extra = [(''launch_time'', PStr ''2015-05-31T23:00:00Z'')]\<rparr>"

definition ex_node_ageless :: node where
  "ex_node_ageless =
     \<lparr>node_id = ''i-4'', node_name = ''acceptance-test-alice-worker-2'',
      node_state = RUNNING, node_extra = []\<rparr>"

definition ex_node_production :: node where
  "ex_node_production =
     \<lparr>node_id = ''i-5'', node_name = ''production-db'',
      node_state = RUNNING, node_extra = []\<rparr>"

definition ex_volumes :: CleanVolumes where
  "ex_volumes = \<lparr>volumes_lag = 2 * hour, marker = 0xABC123\<rparr>"

definition ex_volume_old :: volume where
  "ex_volume_old =
     \<lparr>volume_id = ''vol-1'',
      volume_extra =
        [(''create_time'', PDatetime \<lparr>wall = ex_clock - 3 * hour, utcoffset = Some 0\<rparr>),
         (''tags'', PDict [(''flocker-cluster-id'', ''5f0d6c7a-1b2c-4d3e-8f90-000000abc123'')])],
      volume_driver_name = ''Amazon EC2'', volume_driver_region = None,
      volume_driver_region_name = Some ''us-west-2''\<rparr>"

definition ex_volume_young :: volume where
  "ex_volume_young =
     \<lparr>volume_id = ''vol-2'',
      volume_extra =
        [(''created_at'', PStr ''2015-05-31T23:00:00Z''),
         (''metadata'', PDict [(''flocker-cluster-id'', ''5f0d6c7a-1b2c-4d3e-8f90-000000abc123'')])],
      volume_driver_name = ''Rackspace Cloud (Next Gen)'', volume_driver_region = Some ''dfw'',
      volume_driver_region_name = None\<rparr>"

definition ex_volume_foreign :: volume where
  "ex_volume_foreign =
     \<lparr>volume_id = ''vol-3'',
      volume_extra =
        [(''create_time'', PDatetime \<lparr>wall = ex_clock - 3 * hour, utcoffset = Some 0\<rparr>),
         (''tags'', PDict [(''flocker-cluster-id'', ''5f0d6c7a-1b2c-4d3e-8f90-000000def456'')])],
      volume_driver_name = ''Amazon EC2'', volume_driver_region = None,
      volume_driver_region_name = Some ''us-west-2''\<rparr>"

definition ex_volume_timeless :: volume where
  "ex_volume_timeless =
     \<lparr>volume_id = ''vol-4'',
      volume_extra =
        [(''tags'', PDict [(''flocker-cluster-id'', ''5f0d6c7a-1b2c-4d3e-8f90-000000abc123'')])],
      volume_driver_name = ''Amazon EC2'', volume_driver_region = None,
      volume_driver_region_name = Some ''us-west-2''\<rparr>"

definition ex_volume_untagged :: volume where
  "ex_volume_untagged =
     \<lparr>volume_id = ''vol-5'',
      volume_extra =
        [(''create_time'', PDatetime \<lparr>wall = ex_clock - 3 * hour, utcoffset = Some 0\<rparr>)],
      volume_driver_name = ''Amazon EC2'', volume_driver_region = None,
      volume_driver_region_name = Some ''us-west-2''\<rparr>"

definition ex_rackspace :: driver where
  "ex_rackspace =
     \<lparr>list_nodes = Inr [ex_node_terminated, ex_node_production, ex_node_ageless],
      list_volumes = Inr [ex_volume_young]\<rparr>"

definition ex_ec2 :: driver where
  "ex_ec2 =
     \<lparr>list_nodes = Inr [ex_node_stopped, ex_node_young],
      list_volumes = Inr [ex_volume_old, ex_volume_foreign]\<rparr>"

definition ex_connect :: connect where
  "ex_connect provider user key region =
     (case provider of RACKSPACE \<Rightarrow> Inr ex_rackspace | EC2 \<Rightarrow> Inr ex_ec2)"

definition ex_empty_driver :: driver where
  "ex_empty_driver = \<lparr>list_nodes = Inr [], list_volumes = Inr []\<rparr>"

definition ex_connect_empty :: connect where
  "ex_connect_empty provider user key region = Inr ex_empty_driver"

definition ex_config :: config where
  "ex_config =
     \<lparr>config_rackspace = Some [(''username'', ''u''), (''key'', ''k''), (''region'', ''dfw'')],
      config_aws =
        Some [(''access_key'', ''a''), (''secret_access_token'', ''s''),
              (''region'', ''us-west-2'')],
      config_metadata = Some [(''creator'', ''alice'')],
      config_extra_aws = None\<rparr>"

definition ex_instances :: CleanAcceptanceInstances where
  "ex_instances =
     \<lparr>instances_lag = 2 * hour, instances_prefixes = [''acceptance-test-'', ''client-test-'']\<rparr>"

text \<open>A lag of minus three million days, as \<^verbatim>\<open>--instance-lag=-4320000000\<close> gives.\<close>

definition ex_instances_negative_lag :: CleanAcceptanceInstances where
  "ex_instances_negative_lag =
     \<lparr>instances_lag = - (3000000 * 24 * hour),
      instances_prefixes = [''acceptance-test-'', ''client-test-'']\<rparr>"

text \<open>
  A command line that parses, with the default lags and prefixes, and stand-ins for the
  formatting functions of the standard library.
\<close>

definition ex_options :: options where
  "ex_options =
     \<lparr>opt_dry_run = False, opt_config_file = ex_config, opt_volume_lag = hour div 2,
      opt_instance_lag = 2 * hour, opt_marker = 0xABC123,
      opt_instance_name_prefixes = [''acceptance-test-'', ''client-test-'']\<rparr>"

definition ex_parseOptions :: "string list \<Rightarrow> exn + options" where
  "ex_parseOptions args =
     (if args = [''--config-file'', ''acceptance.yml''] then Inr ex_options
      else Inl (UsageError ''Missing --config-file option.''))"

definition ex_isoformat :: "datetime \<Rightarrow> string" where
  "ex_isoformat d = ''2015-05-31T21:00:00+00:00''"

definition ex_repr :: "(string \<times> pyval) list \<Rightarrow> string" where
  "ex_repr extra = ''{}''"

text \<open>
  A cloud that counts the destroy calls it receives and fails the one for
  \<open>ex_volume_old\<close>.
\<close>

definition ex_destroy_call :: "volume \<Rightarrow> nat \<Rightarrow> exn option \<times> nat" where
  "ex_destroy_call v calls =
     (if v = ex_volume_old then (Some (LibraryError ''timeout''), calls + 1)
      else (None, calls + 1))"

definition ex_executor_state :: "nat executor_state" where
  "ex_executor_state = \<lparr>cloud = 0, attempts = [], err_log = []\<rparr>"

section \<open>Sequencing and the loops\<close>

lemma propagate_Inl: "propagate (Inl e) f = Inl e"
  by (simp add: propagate_def)

lemma propagate_Inr: "propagate (Inr x) f = f x"
  by (simp add: propagate_def)

lemma propagate_eq_Inr: "propagate m f = Inr y \<longleftrightarrow> (\<exists>x. m = Inr x \<and> f x = Inr y)"
  by (cases m) (simp_all add: propagate_def)

text \<open>
  Each loop returns a plan exactly when its condition can be evaluated on every element,
  and the plan then lists, in the order of the input, the elements on which the condition
  is true and those on which it is false.
\<close>

lemma split_nodes_Inr:
  "split_nodes parse_date cutoff nodes ds ks = Inr r \<longleftrightarrow>
     (\<forall>n \<in> set nodes. \<exists>b. node_is_old parse_date cutoff n = Inr b) \<and>
     r = \<lparr>destroyed = ds @ filter (\<lambda>n. node_is_old parse_date cutoff n = Inr True) nodes,
          kept = ks @ filter (\<lambda>n. node_is_old parse_date cutoff n = Inr False) nodes\<rparr>"
proof (induction nodes arbitrary: ds ks)
  case Nil
  show ?case by auto
next
  case (Cons n nodes)
  show ?case
  proof (cases "node_is_old parse_date cutoff n")
    case (Inl e)
    then show ?thesis by (auto simp: propagate_Inl)
  next
    case (Inr b)
    then show ?thesis by (cases b) (auto simp: propagate_Inr Cons.IH)
  qed
qed

lemma filter_test_volumes_loop_Inr:
  "filter_test_volumes_loop UUID parse_date self now maximum_age volumes ds ks = Inr r \<longleftrightarrow>
     (\<forall>v \<in> set volumes. \<exists>b. volume_is_old_test UUID parse_date self now maximum_age v = Inr b) \<and>
     r = \<lparr>destroy = ds @ filter (\<lambda>v. volume_is_old_test UUID parse_date self now maximum_age v = Inr True) volumes,
          keep = ks @ filter (\<lambda>v. volume_is_old_test UUID parse_date self now maximum_age v = Inr False) volumes\<rparr>"
proof (induction volumes arbitrary: ds ks)
  case Nil
  show ?case by auto
next
  case (Cons v volumes)
  show ?case
  proof (cases "volume_is_old_test UUID parse_date self now maximum_age v")
    case (Inl e)
    then show ?thesis by (auto simp: propagate_Inl)
  next
    case (Inr b)
    then show ?thesis by (cases b) (auto simp: propagate_Inr Cons.IH)
  qed
qed

lemma filter_test_volumes_plan:
  "filter_test_volumes UUID parse_date clock self maximum_age volumes = Inr plan \<longleftrightarrow>
     (\<forall>v \<in> set volumes.
        \<exists>b. volume_is_old_test UUID parse_date self (datetime_now clock) maximum_age v = Inr b) \<and>
     plan = \<lparr>destroy = filter (\<lambda>v. volume_is_old_test UUID parse_date self (datetime_now clock)
                                     maximum_age v = Inr True) volumes,
             keep = filter (\<lambda>v. volume_is_old_test UUID parse_date self (datetime_now clock)
                                     maximum_age v = Inr False) volumes\<rparr>"
  by (simp add: filter_test_volumes_def filter_test_volumes_loop_Inr)

lemma list_all_nodes_Inr:
  "list_all_nodes drivers acc = Inr all_nodes \<longleftrightarrow>
     (\<forall>d \<in> set drivers. \<exists>ns. list_nodes d = Inr ns) \<and>
     all_nodes = acc @ concat (map (\<lambda>d. case list_nodes d of Inr ns \<Rightarrow> ns | Inl e \<Rightarrow> []) drivers)"
proof (induction drivers arbitrary: acc)
  case Nil
  show ?case by auto
next
  case (Cons d drivers)
  show ?case
    by (cases "list_nodes d") (auto simp: Cons.IH)
qed

lemma get_cloud_volumes_Inr:
  "get_cloud_volumes drivers acc = Inr volumes \<longleftrightarrow>
     (\<forall>d \<in> set drivers. \<exists>vs. list_volumes d = Inr vs) \<and>
     volumes = acc @ concat (map (\<lambda>d. case list_volumes d of Inr vs \<Rightarrow> vs | Inl e \<Rightarrow> []) drivers)"
proof (induction drivers arbitrary: acc)
  case Nil
  show ?case by auto
next
  case (Cons d drivers)
  show ?case
    by (cases "list_volumes d") (auto simp: Cons.IH propagate_Inl propagate_Inr)
qed

lemma list_all_nodes_pair:
  "list_all_nodes [rackspace, ec2] [] = Inr all_nodes \<longleftrightarrow>
     (\<exists>rackspace_nodes ec2_nodes. list_nodes rackspace = Inr rackspace_nodes
        \<and> list_nodes ec2 = Inr ec2_nodes \<and> all_nodes = rackspace_nodes @ ec2_nodes)"
  by (auto split: sum.splits)

lemma partition_sets:
  assumes "\<forall>x \<in> set xs. \<exists>b. f x = Inr b"
  shows "set (filter (\<lambda>x. f x = Inr True) xs) \<inter> set (filter (\<lambda>x. f x = Inr False) xs) = {}"
    and "set (filter (\<lambda>x. f x = Inr True) xs) \<union> set (filter (\<lambda>x. f x = Inr False) xs) = set xs"
  using assms by auto

lemma filter_not_True:
  assumes "\<forall>x \<in> set xs. \<exists>b. f x = Inr b"
  shows "filter (\<lambda>x. f x = Inr False) xs = filter (\<lambda>x. f x \<noteq> Inr True) xs"
  using assms by (intro filter_cong) auto

section \<open>The instance planner\<close>

lemma startswith_iff: "startswith s p \<longleftrightarrow> (\<exists>rest. s = p @ rest)"
  by (induction s p rule: startswith.induct) auto

lemma startswith_tuple_iff:
  "startswith_tuple s ps \<longleftrightarrow> (\<exists>p \<in> set ps. \<exists>rest. s = p @ rest)"
  by (simp add: startswith_tuple_def list_ex_iff startswith_iff)

text \<open>
  What \<^verbatim>\<open>CleanAcceptanceInstances.start\<close> computes once the values it reads are named:
  the two drivers, the creator, and the nodes that the two providers list.
\<close>

lemma instances_start_unfold:
  assumes "config_rackspace config = Some rackspace_config"
    and "get_rackspace_driver connect rackspace_config = Inr rackspace"
    and "config_aws config = Some aws_config"
    and "get_ec2_driver connect aws_config = Inr ec2"
    and "config_metadata config = Some metadata"
    and "getitem metadata ''creator'' = Inr creator"
    and "list_nodes rackspace = Inr rackspace_nodes"
    and "list_nodes ec2 = Inr ec2_nodes"
  shows "instances_start connect parse_date clock self config dry_run =
     propagate (datetime_sub_timedelta (datetime_now clock) (instances_lag self)) (\<lambda>cutoff.
       split_nodes parse_date cutoff
         (test_nodes (map (\<lambda>prefix. prefix @ creator) (instances_prefixes self))
            (rackspace_nodes @ ec2_nodes)) [] [])"
  using assms
  by (simp add: instances_start_def config_getitem_def propagate_Inr)

lemma instances_start_Inr:
  assumes "instances_start connect parse_date clock self config dry_run = Inr plan"
  shows "\<exists>rackspace_config rackspace aws_config ec2 metadata creator rackspace_nodes ec2_nodes.
    config_rackspace config = Some rackspace_config
    \<and> get_rackspace_driver connect rackspace_config = Inr rackspace
    \<and> config_aws config = Some aws_config
    \<and> get_ec2_driver connect aws_config = Inr ec2
    \<and> config_metadata config = Some metadata
    \<and> getitem metadata ''creator'' = Inr creator
    \<and> list_nodes rackspace = Inr rackspace_nodes
    \<and> list_nodes ec2 = Inr ec2_nodes"
  using assms
  by (auto simp: instances_start_def config_getitem_def propagate_eq_Inr list_all_nodes_pair
      simp del: list_all_nodes.simps split: option.splits)

lemma instances_start_plan:
  assumes "instances_start connect parse_date clock self config dry_run = Inr plan"
    and "config_rackspace config = Some rackspace_config"
    and "get_rackspace_driver connect rackspace_config = Inr rackspace"
    and "config_aws config = Some aws_config"
    and "get_ec2_driver connect aws_config = Inr ec2"
    and "config_metadata config = Some metadata"
    and "getitem metadata ''creator'' = Inr creator"
    and "list_nodes rackspace = Inr rackspace_nodes"
    and "list_nodes ec2 = Inr ec2_nodes"
  shows "\<exists>cutoff.
    datetime_sub_timedelta (datetime_now clock) (instances_lag self) = Inr cutoff
    \<and> (\<forall>n \<in> set (test_nodes (map (\<lambda>prefix. prefix @ creator) (instances_prefixes self))
                     (rackspace_nodes @ ec2_nodes)).
          \<exists>b. node_is_old parse_date cutoff n = Inr b)
    \<and> destroyed plan =
        filter (\<lambda>n. node_is_old parse_date cutoff n = Inr True)
          (test_nodes (map (\<lambda>prefix. prefix @ creator) (instances_prefixes self))
             (rackspace_nodes @ ec2_nodes))
    \<and> kept plan =
        filter (\<lambda>n. node_is_old parse_date cutoff n = Inr False)
          (test_nodes (map (\<lambda>prefix. prefix @ creator) (instances_prefixes self))
             (rackspace_nodes @ ec2_nodes))"
proof -
  have "propagate (datetime_sub_timedelta (datetime_now clock) (instances_lag self)) (\<lambda>cutoff.
       split_nodes parse_date cutoff
         (test_nodes (map (\<lambda>prefix. prefix @ creator) (instances_prefixes self))
            (rackspace_nodes @ ec2_nodes)) [] []) = Inr plan"
    using assms(1) instances_start_unfold [OF assms(2-9)] by simp
  then obtain cutoff where
    c: "datetime_sub_timedelta (datetime_now clock) (instances_lag self) = Inr cutoff"
    and s: "split_nodes parse_date cutoff
         (test_nodes (map (\<lambda>prefix. prefix @ creator) (instances_prefixes self))
            (rackspace_nodes @ ec2_nodes)) [] [] = Inr plan"
    by (auto simp: propagate_eq_Inr)
  from s show ?thesis
    unfolding split_nodes_Inr using c by simp
qed

lemma get_creation_time_absent:
  assumes "map_of (node_extra node) ''created'' = None"
    and "map_of (node_extra node) ''launch_time'' = None"
  shows "get_creation_time parse_date node = Inr None"
  using assms by (simp add: get_creation_time_def dict_get_def)

lemma node_is_old_absent:
  assumes "map_of (node_extra node) ''created'' = None"
    and "map_of (node_extra node) ''launch_time'' = None"
  shows "node_is_old parse_date cutoff node = Inr False"
  by (simp add: node_is_old_def get_creation_time_absent [OF assms] propagate_Inr)

lemma node_is_old_cases:
  "node_is_old parse_date cutoff n =
     (case get_creation_time parse_date n of
        Inl e \<Rightarrow> Inl e
      | Inr None \<Rightarrow> Inr False
      | Inr (Some t) \<Rightarrow> datetime_lt t cutoff)"
  by (simp add: node_is_old_def propagate_def split: sum.split option.split)

lemma datetime_lt_later_cutoff:
  assumes "datetime_lt t \<lparr>wall = w, utcoffset = Some 0\<rparr> = Inr b"
    and "w \<le> w'"
  shows "\<exists>b'. datetime_lt t \<lparr>wall = w', utcoffset = Some 0\<rparr> = Inr b' \<and> (b \<longrightarrow> b')"
  using assms by (cases "utcoffset t") (auto simp: datetime_lt_def)

lemma node_is_old_later_cutoff:
  assumes "node_is_old parse_date \<lparr>wall = w, utcoffset = Some 0\<rparr> n = Inr b"
    and "w \<le> w'"
  shows "\<exists>b'. node_is_old parse_date \<lparr>wall = w', utcoffset = Some 0\<rparr> n = Inr b' \<and> (b \<longrightarrow> b')"
proof (cases "get_creation_time parse_date n")
  case (Inl e)
  with assms(1) show ?thesis by (simp add: node_is_old_cases)
next
  case (Inr creation_time)
  show ?thesis
  proof (cases creation_time)
    case None
    with Inr assms(1) show ?thesis by (auto simp: node_is_old_cases)
  next
    case (Some t)
    with Inr assms(1) have "datetime_lt t \<lparr>wall = w, utcoffset = Some 0\<rparr> = Inr b"
      by (simp add: node_is_old_cases)
    from datetime_lt_later_cutoff [OF this assms(2)] Inr Some show ?thesis
      by (simp add: node_is_old_cases)
  qed
qed

lemma cutoff_Inr:
  "datetime_sub_timedelta (datetime_now clock) lag = Inr cutoff \<longleftrightarrow>
     0 \<le> clock - lag \<and> clock - lag \<le> datetime_max
     \<and> cutoff = \<lparr>wall = clock - lag, utcoffset = Some 0\<rparr>"
  by (auto simp: datetime_sub_timedelta_def datetime_now_def Let_def)

lemma instances_smaller_lag:
  assumes "instances_start connect parse_date clock self config dry_run = Inr plan"
    and "n \<in> set (destroyed plan)"
    and "lag' < instances_lag self"
    and "clock - lag' \<le> datetime_max"
  shows "\<exists>plan'. instances_start connect parse_date clock (self\<lparr>instances_lag := lag'\<rparr>)
                    config dry_run = Inr plan'
           \<and> n \<in> set (destroyed plan')"
proof -
  from instances_start_Inr [OF assms(1)]
  obtain rackspace_config rackspace aws_config ec2 metadata creator rackspace_nodes ec2_nodes
    where run: "config_rackspace config = Some rackspace_config"
      "get_rackspace_driver connect rackspace_config = Inr rackspace"
      "config_aws config = Some aws_config"
      "get_ec2_driver connect aws_config = Inr ec2"
      "config_metadata config = Some metadata"
      "getitem metadata ''creator'' = Inr creator"
      "list_nodes rackspace = Inr rackspace_nodes"
      "list_nodes ec2 = Inr ec2_nodes"
    by blast
  define tn where "tn = test_nodes (map (\<lambda>prefix. prefix @ creator) (instances_prefixes self))
      (rackspace_nodes @ ec2_nodes)"
  from instances_start_plan [OF assms(1) run]
  obtain cutoff where
    c: "datetime_sub_timedelta (datetime_now clock) (instances_lag self) = Inr cutoff"
    and ok: "\<forall>x \<in> set tn. \<exists>b. node_is_old parse_date cutoff x = Inr b"
    and d: "destroyed plan = filter (\<lambda>x. node_is_old parse_date cutoff x = Inr True) tn"
    unfolding tn_def by blast
  from c have lo: "0 \<le> clock - instances_lag self"
    and cutoff: "cutoff = \<lparr>wall = clock - instances_lag self, utcoffset = Some 0\<rparr>"
    by (simp_all add: cutoff_Inr)
  define cutoff' where "cutoff' = \<lparr>wall = clock - lag', utcoffset = Some 0\<rparr>"
  have le: "clock - instances_lag self \<le> clock - lag'"
    using assms(3) by simp
  have c': "datetime_sub_timedelta (datetime_now clock) lag' = Inr cutoff'"
    unfolding cutoff_Inr cutoff'_def using lo le assms(4) by simp
  have ok': "\<forall>x \<in> set tn. \<exists>b. node_is_old parse_date cutoff' x = Inr b"
  proof
    fix x assume "x \<in> set tn"
    with ok obtain b where "node_is_old parse_date cutoff x = Inr b" by blast
    from node_is_old_later_cutoff [OF this [unfolded cutoff] le]
    show "\<exists>b. node_is_old parse_date cutoff' x = Inr b"
      unfolding cutoff'_def by blast
  qed
  from assms(2) have m: "n \<in> set tn" and t: "node_is_old parse_date cutoff n = Inr True"
    unfolding d by simp_all
  from node_is_old_later_cutoff [OF t [unfolded cutoff] le]
  have t': "node_is_old parse_date cutoff' n = Inr True"
    unfolding cutoff'_def by auto
  have "instances_start connect parse_date clock (self\<lparr>instances_lag := lag'\<rparr>) config dry_run =
      split_nodes parse_date cutoff' tn [] []"
    unfolding instances_start_unfold [OF run] tn_def using c' by (simp add: propagate_Inr)
  then show ?thesis
    using ok' m t' by (simp add: split_nodes_Inr)
qed

lemma instances_lag_overflow:
  assumes "instances_start connect parse_date clock self config dry_run = Inr plan"
    and "datetime_max < clock - lag'"
  shows "instances_start connect parse_date clock (self\<lparr>instances_lag := lag'\<rparr>) config dry_run
         = Inl OverflowError"
proof -
  from instances_start_Inr [OF assms(1)]
  obtain rackspace_config rackspace aws_config ec2 metadata creator rackspace_nodes ec2_nodes
    where run: "config_rackspace config = Some rackspace_config"
      "get_rackspace_driver connect rackspace_config = Inr rackspace"
      "config_aws config = Some aws_config"
      "get_ec2_driver connect aws_config = Inr ec2"
      "config_metadata config = Some metadata"
      "getitem metadata ''creator'' = Inr creator"
      "list_nodes rackspace = Inr rackspace_nodes"
      "list_nodes ec2 = Inr ec2_nodes"
    by (elim exE conjE) (rule that)
  have "datetime_sub_timedelta (datetime_now clock) lag' = Inl OverflowError"
    using assms(2) by (simp add: datetime_sub_timedelta_def datetime_now_def Let_def)
  then show ?thesis
    unfolding instances_start_unfold [OF run] by (simp add: propagate_Inl)
qed

section \<open>The volume planner\<close>

lemma uuid_node_range: "0 \<le> uuid_node u \<and> uuid_node u < 2 ^ 48"
proof -
  have "and u (mask 48) \<le> mask 48"
    by (rule word_and_le1)
  then have "uint (and u (mask 48)) \<le> uint (mask 48 :: uuid)"
    by (simp add: word_le_def)
  moreover have "uint (mask 48 :: uuid) = 2 ^ 48 - 1"
    by (simp add: mask_eq_exp_minus_1 uint_word_ariths)
  ultimately show ?thesis
    by (simp add: uuid_node_def)
qed

lemma is_test_volume_tagged:
  assumes "dict_get (volume_extra v) ''tags'' (dict_get (volume_extra v) ''metadata'' PNone)
      = PDict tags"
  shows "is_test_volume UUID self v =
     Inr (\<exists>cluster_id u. map_of tags ''flocker-cluster-id'' = Some cluster_id
            \<and> UUID cluster_id = Some u \<and> uuid_node u = marker self)"
proof (cases "map_of tags ''flocker-cluster-id''")
  case None
  with assms show ?thesis
    by (simp add: is_test_volume_def get_cluster_id_def get_tag_def getitem_def)
next
  case (Some cluster_id)
  with assms show ?thesis
    by (cases "UUID cluster_id")
      (simp_all add: is_test_volume_def get_cluster_id_def get_tag_def getitem_def
        is_test_cluster_def)
qed

lemma is_test_volume_untagged:
  assumes "\<forall>tags. dict_get (volume_extra v) ''tags'' (dict_get (volume_extra v) ''metadata'' PNone)
      \<noteq> PDict tags"
  shows "is_test_volume UUID self v = Inl TypeError"
  using assms
  by (cases "dict_get (volume_extra v) ''tags'' (dict_get (volume_extra v) ''metadata'' PNone)")
    (simp_all add: is_test_volume_def get_cluster_id_def get_tag_def)

lemma volume_is_old_test_cases:
  "volume_is_old_test UUID parse_date self now maximum_age v =
     (case get_volume_creation_time parse_date v of
        Inl e \<Rightarrow> Inl e
      | Inr created \<Rightarrow>
          (case is_test_volume UUID self v of
             Inl e \<Rightarrow> Inl e
           | Inr False \<Rightarrow> Inr False
           | Inr True \<Rightarrow>
               (case datetime_sub_pyval now created of
                  Inl e \<Rightarrow> Inl e
                | Inr age \<Rightarrow> Inr (age > maximum_age))))"
  by (simp add: volume_is_old_test_def propagate_def split: sum.split bool.split)

lemma volume_is_old_test_True:
  "volume_is_old_test UUID parse_date self now maximum_age v = Inr True \<longleftrightarrow>
     is_test_volume UUID self v = Inr True
     \<and> (\<exists>created age. get_volume_creation_time parse_date v = Inr created
            \<and> datetime_sub_pyval now created = Inr age \<and> age > maximum_age)"
  unfolding volume_is_old_test_cases
  by (simp split: sum.split bool.split)

lemma volume_is_old_test_lag:
  assumes "volume_is_old_test UUID parse_date self now lag v = Inr b"
    and "lag' < lag"
  shows "\<exists>b'. volume_is_old_test UUID parse_date self now lag' v = Inr b' \<and> (b \<longrightarrow> b')"
  using assms unfolding volume_is_old_test_cases
  by (auto split: sum.splits bool.splits)

lemma volume_is_old_test_created:
  "volume_is_old_test UUID parse_date self now maximum_age v = Inr b \<Longrightarrow>
     \<exists>created. get_volume_creation_time parse_date v = Inr created"
  by (auto simp: volume_is_old_test_def propagate_eq_Inr)

lemma get_volume_creation_time_absent:
  assumes "map_of (volume_extra v) ''create_time'' = None"
    and "map_of (volume_extra v) ''created_at'' = None"
  shows "get_volume_creation_time parse_date v = Inl KeyError"
  using assms by (simp add: get_volume_creation_time_def getitem_def propagate_def)

lemma volumes_smaller_lag:
  assumes "filter_test_volumes UUID parse_date clock self lag volumes = Inr plan"
    and "v \<in> set (destroy plan)"
    and "lag' < lag"
  shows "\<exists>plan'. filter_test_volumes UUID parse_date clock self lag' volumes = Inr plan'
           \<and> v \<in> set (destroy plan')"
proof -
  from assms(1) have ok: "\<forall>x \<in> set volumes.
      \<exists>b. volume_is_old_test UUID parse_date self (datetime_now clock) lag x = Inr b"
    and d: "destroy plan =
      filter (\<lambda>x. volume_is_old_test UUID parse_date self (datetime_now clock) lag x = Inr True)
        volumes"
    by (simp_all add: filter_test_volumes_plan)
  have ok': "\<forall>x \<in> set volumes.
      \<exists>b. volume_is_old_test UUID parse_date self (datetime_now clock) lag' x = Inr b"
  proof
    fix x assume "x \<in> set volumes"
    with ok obtain b where
      "volume_is_old_test UUID parse_date self (datetime_now clock) lag x = Inr b" by blast
    from volume_is_old_test_lag [OF this assms(3)]
    show "\<exists>b. volume_is_old_test UUID parse_date self (datetime_now clock) lag' x = Inr b"
      by blast
  qed
  from assms(2) have m: "v \<in> set volumes"
    and t: "volume_is_old_test UUID parse_date self (datetime_now clock) lag v = Inr True"
    unfolding d by simp_all
  from volume_is_old_test_lag [OF t assms(3)]
  have t': "volume_is_old_test UUID parse_date self (datetime_now clock) lag' v = Inr True"
    by auto
  show ?thesis
    unfolding filter_test_volumes_plan using ok' m t' by simp
qed

text \<open>
  \<^verbatim>\<open>CleanVolumes.start\<close> returns the plan of \<^verbatim>\<open>_filter_test_volumes\<close> for the volumes
  that the drivers list, with the lag of the object.
\<close>

lemma volumes_start_Inr:
  "volumes_start connect UUID parse_date clock self config dry_run = Inr plan \<longleftrightarrow>
     (\<exists>drivers volumes.
        get_cloud_drivers connect config = Inr drivers
        \<and> get_cloud_volumes drivers [] = Inr volumes
        \<and> filter_test_volumes UUID parse_date clock self (volumes_lag self) volumes = Inr plan)"
  by (simp add: volumes_start_def propagate_eq_Inr)

section \<open>The executor, the report and the exit status\<close>

lemma map_filter_append: "List.map_filter f (xs @ ys) = List.map_filter f xs @ List.map_filter f ys"
  by (simp add: List.map_filter_def)

lemma destroy_resource_trace:
  "\<exists>outcome.
     attempts (destroy_resource destroy_call r s) = attempts s @ [(r, outcome)]
     \<and> err_log (destroy_resource destroy_call r s) =
         err_log s @ map (\<lambda>e. (e, ''Destroying resource.'')) (List.map_filter snd [(r, outcome)])"
proof (cases "destroy_call r (cloud s)")
  case (Pair outcome w)
  then show ?thesis
    by (cases outcome) (simp_all add: destroy_resource_def List.map_filter_def)
qed

lemma destroy_resources_trace:
  "\<exists>new.
     attempts (destroy_resources destroy_call rs s) = attempts s @ new
     \<and> map fst new = rs
     \<and> err_log (destroy_resources destroy_call rs s) =
         err_log s @ map (\<lambda>e. (e, ''Destroying resource.'')) (List.map_filter snd new)"
proof (induction rs arbitrary: s)
  case Nil
  show ?case by (simp add: List.map_filter_def)
next
  case (Cons r rs)
  obtain outcome where
    a: "attempts (destroy_resource destroy_call r s) = attempts s @ [(r, outcome)]"
    and l: "err_log (destroy_resource destroy_call r s) =
         err_log s @ map (\<lambda>e. (e, ''Destroying resource.'')) (List.map_filter snd [(r, outcome)])"
    using destroy_resource_trace [of destroy_call r s] by (elim exE conjE) (rule that)
  obtain new where
    a': "attempts (destroy_resources destroy_call rs (destroy_resource destroy_call r s)) =
         attempts (destroy_resource destroy_call r s) @ new"
    and f: "map fst new = rs"
    and l': "err_log (destroy_resources destroy_call rs (destroy_resource destroy_call r s)) =
         err_log (destroy_resource destroy_call r s)
         @ map (\<lambda>e. (e, ''Destroying resource.'')) (List.map_filter snd new)"
    using Cons.IH [of "destroy_resource destroy_call r s"] by (elim exE conjE) (rule that)
  have "attempts (destroy_resources destroy_call (r # rs) s) = attempts s @ ((r, outcome) # new)"
    using a a' by simp
  moreover have "map fst ((r, outcome) # new) = r # rs"
    using f by simp
  moreover have "err_log (destroy_resources destroy_call (r # rs) s) =
         err_log s @ map (\<lambda>e. (e, ''Destroying resource.''))
                       (List.map_filter snd ((r, outcome) # new))"
    using l l' by (cases outcome) (simp_all add: List.map_filter_simps)
  ultimately show ?case by (intro exI conjI)
qed

lemma destroy_resource_calls:
  "cloud (destroy_resource destroy_call r s) = snd (destroy_call r (cloud s))
   \<and> attempts (destroy_resource destroy_call r s) =
       attempts s @ [(r, fst (destroy_call r (cloud s)))]"
proof (cases "destroy_call r (cloud s)")
  case (Pair outcome w)
  then show ?thesis
    by (cases outcome) (simp_all add: destroy_resource_def)
qed

lemma destroy_resources_answers:
  "\<exists>new. attempts (destroy_resources destroy_call rs s) = attempts s @ new
     \<and> map fst new = rs
     \<and> list_all (\<lambda>(r, outcome). \<exists>w. outcome = fst (destroy_call r w)) new"
proof (induction rs arbitrary: s)
  case Nil
  show ?case by simp
next
  case (Cons r rs)
  define s1 where "s1 = destroy_resource destroy_call r s"
  have a: "attempts s1 = attempts s @ [(r, fst (destroy_call r (cloud s)))]"
    unfolding s1_def by (simp add: destroy_resource_calls)
  from Cons.IH [of s1] obtain new where
    a': "attempts (destroy_resources destroy_call rs s1) = attempts s1 @ new"
    and f: "map fst new = rs"
    and c: "list_all (\<lambda>(r, outcome). \<exists>w. outcome = fst (destroy_call r w)) new"
    by (elim exE conjE) (rule that)
  have "attempts (destroy_resources destroy_call (r # rs) s) =
      attempts s @ ((r, fst (destroy_call r (cloud s))) # new)"
    using a a' by (simp add: s1_def)
  moreover have "map fst ((r, fst (destroy_call r (cloud s))) # new) = r # rs"
    using f by simp
  moreover have "list_all (\<lambda>(r, outcome). \<exists>w. outcome = fst (destroy_call r w))
      ((r, fst (destroy_call r (cloud s))) # new)"
    using c by auto
  ultimately show ?case by (intro exI conjI)
qed

text \<open>
  On \<^verbatim>\<open>VolumeActions\<close> objects, for which it was written, \<^verbatim>\<open>perform_actions\<close> returns
  after one destroy call for each entry of the destroy lists, in order, whatever the calls
  raised, and the log gains one entry for each call that raised.
\<close>

lemma perform_actions_trace:
  "\<exists>s' new.
     perform_actions destroy_call (map VolumeActionsObj plans) s = (None, s')
     \<and> attempts s' = attempts s @ new
     \<and> map fst new = concat (map destroy plans)
     \<and> err_log s' =
         err_log s @ map (\<lambda>e. (e, ''Destroying resource.'')) (List.map_filter snd new)"
proof (induction plans arbitrary: s)
  case Nil
  show ?case by (simp add: List.map_filter_def)
next
  case (Cons p plans)
  define s1 where "s1 = destroy_resources destroy_call (destroy p) s"
  obtain new1 where
    a1: "attempts s1 = attempts s @ new1"
    and f1: "map fst new1 = destroy p"
    and l1: "err_log s1 =
         err_log s @ map (\<lambda>e. (e, ''Destroying resource.'')) (List.map_filter snd new1)"
    using destroy_resources_trace [of destroy_call "destroy p" s, folded s1_def]
    by (elim exE conjE) (rule that)
  obtain s' new2 where
    p2: "perform_actions destroy_call (map VolumeActionsObj plans) s1 = (None, s')"
    and a2: "attempts s' = attempts s1 @ new2"
    and f2: "map fst new2 = concat (map destroy plans)"
    and l2: "err_log s' =
         err_log s1 @ map (\<lambda>e. (e, ''Destroying resource.'')) (List.map_filter snd new2)"
    using Cons.IH [of s1] by (elim exE conjE) (rule that)
  have "perform_actions destroy_call (map VolumeActionsObj (p # plans)) s = (None, s')"
    using p2 by (simp add: getattr_destroy_def s1_def)
  moreover have "attempts s' = attempts s @ (new1 @ new2)"
    using a1 a2 by simp
  moreover have "map fst (new1 @ new2) = concat (map destroy (p # plans))"
    using f1 f2 by simp
  moreover have "err_log s' =
         err_log s @ map (\<lambda>e. (e, ''Destroying resource.'')) (List.map_filter snd (new1 @ new2))"
    using l1 l2 by (simp add: map_filter_append)
  ultimately show ?case by (intro exI conjI)
qed


lemma encode_nodes_Inr: "encode_nodes nodes = (if nodes = [] then Inr [] else Inl TypeError)"
  by (cases nodes) simp_all

lemma print_actions_node_dict:
  "print_actions isoformat repr parse_date [NodeActionsDict plan] =
     (if destroyed plan = [] \<and> kept plan = []
      then Inr (JArray [JObject [(''destroyed'', JArray []), (''kept'', JArray [])]])
      else Inl TypeError)"
  by (simp add: print_actions_def encode_action_group_def encode_nodes_Inr propagate_def)

lemma do_exit_node_dict: "do_exit (NodeActionsDict plan # actions) = Inl AttributeError"
  by (simp add: getattr_destroy_def propagate_def)

text \<open>
  Once the plan is computed, the main function never returns: printing a plan that
  holds a node raises \<^verbatim>\<open>TypeError\<close>, and \<^verbatim>\<open>do_exit\<close> raises \<^verbatim>\<open>AttributeError\<close> on the
  dictionary of an empty plan.
\<close>

lemma main_after_plan:
  assumes "parseOptions args = Inr options"
    and "instances_start connect parse_date clock
           \<lparr>instances_lag = opt_instance_lag options,
            instances_prefixes = opt_instance_name_prefixes options\<rparr>
           (opt_config_file options) (opt_dry_run options) = Inr plan"
  shows "cleanup_cloud_resources_main parseOptions connect parse_date isoformat repr clock args =
     (if destroyed plan = [] \<and> kept plan = [] then Inl AttributeError else Inl TypeError)"
    and "exit_status
      (cleanup_cloud_resources_main parseOptions connect parse_date isoformat repr clock args) = 1"
  using assms
  by (simp_all add: cleanup_cloud_resources_main_def print_actions_node_dict do_exit_node_dict
      propagate_def exit_status_def del: do_exit.simps)

text \<open>
  On \<^verbatim>\<open>VolumeActions\<close> objects, for which it was written, \<^verbatim>\<open>do_exit\<close> raises
  \<^verbatim>\<open>SystemExit(1)\<close> exactly when some destroy list is not empty.
\<close>

lemma do_exit_volume_actions:
  "do_exit (map VolumeActionsObj plans) =
     (if list_ex (\<lambda>p. destroy p \<noteq> []) plans then Inl (SystemExit 1) else Inr ())"
  by (induction plans) (simp_all add: getattr_destroy_def propagate_def)

section \<open>The concrete run, evaluated\<close>

lemma ex_run:
  shows "config_rackspace ex_config =
      Some [(''username'', ''u''), (''key'', ''k''), (''region'', ''dfw'')]"
    and "get_rackspace_driver ex_connect
      [(''username'', ''u''), (''key'', ''k''), (''region'', ''dfw'')] = Inr ex_rackspace"
    and "config_aws ex_config =
      Some [(''access_key'', ''a''), (''secret_access_token'', ''s''), (''region'', ''us-west-2'')]"
    and "get_ec2_driver ex_connect
      [(''access_key'', ''a''), (''secret_access_token'', ''s''), (''region'', ''us-west-2'')] =
      Inr ex_ec2"
    and "config_metadata ex_config = Some [(''creator'', ''alice'')]"
    and "getitem [(''creator'', ''alice'')] ''creator'' = Inr ''alice''"
    and "list_nodes ex_rackspace = Inr [ex_node_terminated, ex_node_production, ex_node_ageless]"
    and "list_nodes ex_ec2 = Inr [ex_node_stopped, ex_node_young]"
  by (simp_all add: ex_config_def ex_connect_def ex_rackspace_def ex_ec2_def
      get_rackspace_driver_def get_ec2_driver_def getitem_def propagate_def)

lemma ex_instances_plan:
  "instances_start ex_connect ex_parse_date ex_clock ex_instances ex_config False =
     Inr \<lparr>destroyed = [ex_node_terminated], kept = [ex_node_ageless, ex_node_young]\<rparr>"
  by code_simp

lemma ex_volumes_plan:
  "volumes_start ex_connect ex_UUID ex_parse_date ex_clock ex_volumes ex_config False =
     Inr \<lparr>destroy = [ex_volume_old], keep = [ex_volume_young, ex_volume_foreign]\<rparr>"
  by code_simp

lemma ex_filter_plan:
  "filter_test_volumes ex_UUID ex_parse_date ex_clock ex_volumes (2 * hour)
       [ex_volume_old, ex_volume_young, ex_volume_foreign] =
     Inr \<lparr>destroy = [ex_volume_old], keep = [ex_volume_young, ex_volume_foreign]\<rparr>"
  by code_simp

lemma ex_filter_plan_hour:
  "filter_test_volumes ex_UUID ex_parse_date ex_clock ex_volumes hour
       [ex_volume_old, ex_volume_young, ex_volume_foreign] =
     Inr \<lparr>destroy = [ex_volume_old], keep = [ex_volume_young, ex_volume_foreign]\<rparr>"
  by code_simp

lemma ex_instances_plan_hour:
  "instances_start ex_connect ex_parse_date ex_clock (ex_instances\<lparr>instances_lag := hour\<rparr>)
       ex_config False =
     Inr \<lparr>destroyed = [ex_node_terminated], kept = [ex_node_ageless, ex_node_young]\<rparr>"
  by code_simp

lemma ex_perform_actions_run:
  "perform_actions ex_destroy_call
     (map VolumeActionsObj
        [\<lparr>destroy = [ex_volume_old, ex_volume_foreign], keep = [ex_volume_young]\<rparr>,
         \<lparr>destroy = [ex_volume_untagged], keep = []\<rparr>])
     ex_executor_state =
   (None,
    \<lparr>cloud = 3,
     attempts = [(ex_volume_old, Some (LibraryError ''timeout'')), (ex_volume_foreign, None),
                 (ex_volume_untagged, None)],
     err_log = [(LibraryError ''timeout'', ''Destroying resource.'')]\<rparr>)"
  by (simp add: ex_destroy_call_def ex_executor_state_def getattr_destroy_def
      destroy_resource_def ex_volume_old_def ex_volume_foreign_def ex_volume_untagged_def)

section \<open>The claims\<close>

text \<open>
  Claim C1, as the code has it. Whenever a plan is returned, its two lists are disjoint.
  The lists of a volume plan together hold every listed volume. The lists of an instance
  plan together hold the test nodes only: a listed node whose name or state fails the
  selection is in neither list.
\<close>

theorem plan_partition:
  "(filter_test_volumes UUID parse_date clock vself maximum_age volumes = Inr vplan \<longrightarrow>
      set (destroy vplan) \<inter> set (keep vplan) = {}
      \<and> set (destroy vplan) \<union> set (keep vplan) = set volumes)
   \<and> (instances_start connect parse_date clock self config dry_run = Inr plan
      \<and> config_rackspace config = Some rackspace_config
      \<and> get_rackspace_driver connect rackspace_config = Inr rackspace
      \<and> config_aws config = Some aws_config
      \<and> get_ec2_driver connect aws_config = Inr ec2
      \<and> config_metadata config = Some metadata
      \<and> getitem metadata ''creator'' = Inr creator
      \<and> list_nodes rackspace = Inr rackspace_nodes
      \<and> list_nodes ec2 = Inr ec2_nodes \<longrightarrow>
      set (destroyed plan) \<inter> set (kept plan) = {}
      \<and> set (destroyed plan) \<union> set (kept plan) =
          set (test_nodes (map (\<lambda>prefix. prefix @ creator) (instances_prefixes self))
                 (rackspace_nodes @ ec2_nodes)))"
proof (intro conjI impI)
  assume v: "filter_test_volumes UUID parse_date clock vself maximum_age volumes = Inr vplan"
  then have ok: "\<forall>v \<in> set volumes.
      \<exists>b. volume_is_old_test UUID parse_date vself (datetime_now clock) maximum_age v = Inr b"
    by (simp add: filter_test_volumes_plan)
  from v show "set (destroy vplan) \<inter> set (keep vplan) = {}"
    using partition_sets(1) [OF ok] by (simp add: filter_test_volumes_plan)
  from v show "set (destroy vplan) \<union> set (keep vplan) = set volumes"
    using partition_sets(2) [OF ok] by (simp add: filter_test_volumes_plan)
next
  assume a: "instances_start connect parse_date clock self config dry_run = Inr plan
      \<and> config_rackspace config = Some rackspace_config
      \<and> get_rackspace_driver connect rackspace_config = Inr rackspace
      \<and> config_aws config = Some aws_config
      \<and> get_ec2_driver connect aws_config = Inr ec2
      \<and> config_metadata config = Some metadata
      \<and> getitem metadata ''creator'' = Inr creator
      \<and> list_nodes rackspace = Inr rackspace_nodes
      \<and> list_nodes ec2 = Inr ec2_nodes"
  then obtain cutoff where
    ok: "\<forall>n \<in> set (test_nodes (map (\<lambda>prefix. prefix @ creator) (instances_prefixes self))
                     (rackspace_nodes @ ec2_nodes)).
          \<exists>b. node_is_old parse_date cutoff n = Inr b"
    and d: "destroyed plan =
        filter (\<lambda>n. node_is_old parse_date cutoff n = Inr True)
          (test_nodes (map (\<lambda>prefix. prefix @ creator) (instances_prefixes self))
             (rackspace_nodes @ ec2_nodes))"
    and k: "kept plan =
        filter (\<lambda>n. node_is_old parse_date cutoff n = Inr False)
          (test_nodes (map (\<lambda>prefix. prefix @ creator) (instances_prefixes self))
             (rackspace_nodes @ ec2_nodes))"
    using instances_start_plan [of connect parse_date clock self config dry_run plan
        rackspace_config rackspace aws_config ec2 metadata creator rackspace_nodes ec2_nodes]
    by blast
  show "set (destroyed plan) \<inter> set (kept plan) = {}"
    unfolding d k by (rule partition_sets(1) [OF ok])
  show "set (destroyed plan) \<union> set (kept plan) =
          set (test_nodes (map (\<lambda>prefix. prefix @ creator) (instances_prefixes self))
                 (rackspace_nodes @ ec2_nodes))"
    unfolding d k by (rule partition_sets(2) [OF ok])
qed

theorem plan_partition_witness:
  "filter_test_volumes ex_UUID ex_parse_date ex_clock ex_volumes (2 * hour)
       [ex_volume_old, ex_volume_young, ex_volume_foreign] =
     Inr \<lparr>destroy = [ex_volume_old], keep = [ex_volume_young, ex_volume_foreign]\<rparr>
   \<and> set [ex_volume_old] \<inter> set [ex_volume_young, ex_volume_foreign] = {}
   \<and> set [ex_volume_old] \<union> set [ex_volume_young, ex_volume_foreign] =
       set [ex_volume_old, ex_volume_young, ex_volume_foreign]
   \<and> instances_start ex_connect ex_parse_date ex_clock ex_instances ex_config False =
       Inr \<lparr>destroyed = [ex_node_terminated], kept = [ex_node_ageless, ex_node_young]\<rparr>
   \<and> set [ex_node_terminated] \<inter> set [ex_node_ageless, ex_node_young] = {}
   \<and> set [ex_node_terminated] \<union> set [ex_node_ageless, ex_node_young] =
       set (test_nodes (map (\<lambda>prefix. prefix @ ''alice'') (instances_prefixes ex_instances))
              ([ex_node_terminated, ex_node_production, ex_node_ageless]
               @ [ex_node_stopped, ex_node_young]))"
proof -
  show ?thesis
    using ex_filter_plan ex_instances_plan ex_run
      plan_partition [of ex_UUID ex_parse_date ex_clock ex_volumes "2 * hour"
        "[ex_volume_old, ex_volume_young, ex_volume_foreign]"
        "\<lparr>destroy = [ex_volume_old], keep = [ex_volume_young, ex_volume_foreign]\<rparr>"
        ex_connect ex_instances ex_config False
        "\<lparr>destroyed = [ex_node_terminated], kept = [ex_node_ageless, ex_node_young]\<rparr>"
        "[(''username'', ''u''), (''key'', ''k''), (''region'', ''dfw'')]" ex_rackspace
        "[(''access_key'', ''a''), (''secret_access_token'', ''s''), (''region'', ''us-west-2'')]"
        ex_ec2 "[(''creator'', ''alice'')]" "''alice''"
        "[ex_node_terminated, ex_node_production, ex_node_ageless]"
        "[ex_node_stopped, ex_node_young]"]
    by simp
qed

text \<open>
  Claim C1 as stated fails for instances: \<open>ex_node_production\<close> is listed by the first
  provider and is in neither list of the plan.
\<close>

theorem unselected_node_in_neither_list:
  "ex_connect RACKSPACE ''u'' ''k'' ''dfw'' = Inr ex_rackspace
   \<and> list_nodes ex_rackspace = Inr [ex_node_terminated, ex_node_production, ex_node_ageless]
   \<and> instances_start ex_connect ex_parse_date ex_clock ex_instances ex_config False =
       Inr \<lparr>destroyed = [ex_node_terminated], kept = [ex_node_ageless, ex_node_young]\<rparr>
   \<and> ex_node_production \<notin> set [ex_node_terminated]
   \<and> ex_node_production \<notin> set [ex_node_ageless, ex_node_young]"
  by code_simp

text \<open>
  Claim C2 holds for a volume that has a \<^verbatim>\<open>tags\<close> or \<^verbatim>\<open>metadata\<close> dictionary
  (\<open>is_test_volume_tagged\<close>). For a volume with neither, \<^verbatim>\<open>_get_tag\<close> subscripts
  \<^verbatim>\<open>None\<close>; the \<^verbatim>\<open>TypeError\<close> is not the \<^verbatim>\<open>KeyError\<close> that \<^verbatim>\<open>_is_test_volume\<close> catches, so
  the classification raises instead of answering false.
\<close>

theorem untagged_volume_raises:
  "map_of (volume_extra ex_volume_untagged) ''tags'' = None
   \<and> map_of (volume_extra ex_volume_untagged) ''metadata'' = None
   \<and> get_tag ex_volume_untagged ''flocker-cluster-id'' = Inl TypeError
   \<and> is_test_volume ex_UUID ex_volumes ex_volume_untagged = Inl TypeError"
  by (simp add: ex_volume_untagged_def is_test_volume_def get_cluster_id_def get_tag_def
      dict_get_def)

text \<open>
  Claim C3, as the code has it. A node with neither \<^verbatim>\<open>created\<close> nor \<^verbatim>\<open>launch_time\<close> is
  never in the destroyed list; it is in the kept list exactly when it is a test node.
\<close>

theorem ageless_node_never_destroyed:
  assumes "instances_start connect parse_date clock self config dry_run = Inr plan"
    and "config_rackspace config = Some rackspace_config"
    and "get_rackspace_driver connect rackspace_config = Inr rackspace"
    and "config_aws config = Some aws_config"
    and "get_ec2_driver connect aws_config = Inr ec2"
    and "config_metadata config = Some metadata"
    and "getitem metadata ''creator'' = Inr creator"
    and "list_nodes rackspace = Inr rackspace_nodes"
    and "list_nodes ec2 = Inr ec2_nodes"
    and "map_of (node_extra node) ''created'' = None"
    and "map_of (node_extra node) ''launch_time'' = None"
  shows "node \<notin> set (destroyed plan)
    \<and> (node \<in> set (kept plan) \<longleftrightarrow>
         node \<in> set (test_nodes (map (\<lambda>prefix. prefix @ creator) (instances_prefixes self))
                       (rackspace_nodes @ ec2_nodes)))"
proof -
  obtain cutoff where
    d: "destroyed plan =
        filter (\<lambda>n. node_is_old parse_date cutoff n = Inr True)
          (test_nodes (map (\<lambda>prefix. prefix @ creator) (instances_prefixes self))
             (rackspace_nodes @ ec2_nodes))"
    and k: "kept plan =
        filter (\<lambda>n. node_is_old parse_date cutoff n = Inr False)
          (test_nodes (map (\<lambda>prefix. prefix @ creator) (instances_prefixes self))
             (rackspace_nodes @ ec2_nodes))"
    using instances_start_plan [OF assms(1-9)] by blast
  have "node_is_old parse_date cutoff node = Inr False"
    by (rule node_is_old_absent [OF assms(10,11)])
  then show ?thesis
    unfolding d k by simp
qed

theorem ageless_node_never_destroyed_witness:
  "ex_node_ageless \<notin> set [ex_node_terminated]
   \<and> ex_node_ageless \<in> set [ex_node_ageless, ex_node_young]
   \<and> ex_node_ageless \<in> set (test_nodes (map (\<lambda>prefix. prefix @ ''alice'')
         (instances_prefixes ex_instances))
         ([ex_node_terminated, ex_node_production, ex_node_ageless]
          @ [ex_node_stopped, ex_node_young]))"
proof -
  have c: "map_of (node_extra ex_node_ageless) ''created'' = None"
    by (simp add: ex_node_ageless_def)
  have l: "map_of (node_extra ex_node_ageless) ''launch_time'' = None"
    by (simp add: ex_node_ageless_def)
  show ?thesis
    using ageless_node_never_destroyed [OF ex_instances_plan ex_run c l] by simp
qed

text \<open>
  Claim C3 as stated fails: \<open>ex_node_production\<close> has no creation time, is listed, and is
  not in the kept list.
\<close>

theorem ageless_node_not_kept:
  "map_of (node_extra ex_node_production) ''created'' = None
   \<and> map_of (node_extra ex_node_production) ''launch_time'' = None
   \<and> ex_connect RACKSPACE ''u'' ''k'' ''dfw'' = Inr ex_rackspace
   \<and> list_nodes ex_rackspace = Inr [ex_node_terminated, ex_node_production, ex_node_ageless]
   \<and> instances_start ex_connect ex_parse_date ex_clock ex_instances ex_config False =
       Inr \<lparr>destroyed = [ex_node_terminated], kept = [ex_node_ageless, ex_node_young]\<rparr>
   \<and> ex_node_production \<notin> set [ex_node_ageless, ex_node_young]"
  by code_simp

text \<open>
  Claim C4, as the code has it. When the planner returns a plan, every volume of the
  input has a creation time, is in the destroy list if and only if it is a test volume
  and \<^verbatim>\<open>now - created\<close> exceeds the lag, and is in the keep list otherwise. When a volume
  of the input has neither \<^verbatim>\<open>create_time\<close> nor \<^verbatim>\<open>created_at\<close>, the planner raises and
  returns no plan.
\<close>

theorem volume_destroy_decision:
  "(filter_test_volumes UUID parse_date clock self maximum_age volumes = Inr plan
      \<and> v \<in> set volumes \<longrightarrow>
      (\<exists>created. get_volume_creation_time parse_date v = Inr created)
      \<and> (v \<in> set (destroy plan) \<longleftrightarrow>
           is_test_volume UUID self v = Inr True
           \<and> (\<exists>created age. get_volume_creation_time parse_date v = Inr created
                  \<and> datetime_sub_pyval (datetime_now clock) created = Inr age
                  \<and> age > maximum_age))
      \<and> (v \<in> set (keep plan) \<longleftrightarrow> v \<notin> set (destroy plan)))
   \<and> (v \<in> set volumes
      \<and> map_of (volume_extra v) ''create_time'' = None
      \<and> map_of (volume_extra v) ''created_at'' = None \<longrightarrow>
      (\<exists>e. filter_test_volumes UUID parse_date clock self maximum_age volumes = Inl e))"
proof (intro conjI impI)
  assume a: "filter_test_volumes UUID parse_date clock self maximum_age volumes = Inr plan
      \<and> v \<in> set volumes"
  then obtain b where
    b: "volume_is_old_test UUID parse_date self (datetime_now clock) maximum_age v = Inr b"
    unfolding filter_test_volumes_plan by blast
  from a have d: "destroy plan =
      filter (\<lambda>v. volume_is_old_test UUID parse_date self (datetime_now clock) maximum_age v
                   = Inr True) volumes"
    and k: "keep plan =
      filter (\<lambda>v. volume_is_old_test UUID parse_date self (datetime_now clock) maximum_age v
                   = Inr False) volumes"
    by (simp_all add: filter_test_volumes_plan)
  from a have m: "v \<in> set volumes" by simp
  show "\<exists>created. get_volume_creation_time parse_date v = Inr created"
    by (rule volume_is_old_test_created [OF b])
  show "v \<in> set (destroy plan) \<longleftrightarrow>
           is_test_volume UUID self v = Inr True
           \<and> (\<exists>created age. get_volume_creation_time parse_date v = Inr created
                  \<and> datetime_sub_pyval (datetime_now clock) created = Inr age
                  \<and> age > maximum_age)"
    unfolding d using m by (simp add: volume_is_old_test_True)
  show "v \<in> set (keep plan) \<longleftrightarrow> v \<notin> set (destroy plan)"
    unfolding d k using m b by auto
next
  assume a: "v \<in> set volumes
      \<and> map_of (volume_extra v) ''create_time'' = None
      \<and> map_of (volume_extra v) ''created_at'' = None"
  then have "get_volume_creation_time parse_date v = Inl KeyError"
    by (simp add: get_volume_creation_time_absent)
  then have "\<forall>b. volume_is_old_test UUID parse_date self (datetime_now clock) maximum_age v
      \<noteq> Inr b"
    by (simp add: volume_is_old_test_def propagate_Inl)
  with a have "\<forall>plan. filter_test_volumes UUID parse_date clock self maximum_age volumes
      \<noteq> Inr plan"
    unfolding filter_test_volumes_plan by blast
  then show "\<exists>e. filter_test_volumes UUID parse_date clock self maximum_age volumes = Inl e"
    by (cases "filter_test_volumes UUID parse_date clock self maximum_age volumes") auto
qed

theorem volume_destroy_decision_witness:
  "ex_volume_old \<in> set [ex_volume_old]
   \<and> is_test_volume ex_UUID ex_volumes ex_volume_old = Inr True
   \<and> (\<exists>created age. get_volume_creation_time ex_parse_date ex_volume_old = Inr created
          \<and> datetime_sub_pyval (datetime_now ex_clock) created = Inr age \<and> age > 2 * hour)
   \<and> ex_volume_old \<notin> set [ex_volume_young, ex_volume_foreign]
   \<and> (\<exists>e. filter_test_volumes ex_UUID ex_parse_date ex_clock ex_volumes (2 * hour)
          [ex_volume_old, ex_volume_timeless] = Inl e)"
proof -
  note t = volume_destroy_decision [of ex_UUID ex_parse_date ex_clock ex_volumes "2 * hour"
      "[ex_volume_old, ex_volume_young, ex_volume_foreign]"
      "\<lparr>destroy = [ex_volume_old], keep = [ex_volume_young, ex_volume_foreign]\<rparr>"
      ex_volume_old]
  have m: "ex_volume_old \<in> set [ex_volume_old, ex_volume_young, ex_volume_foreign]"
    by simp
  note p = t [THEN conjunct1, THEN mp, OF conjI [OF ex_filter_plan m],
      unfolded VolumeActions.select_convs]
  note u = volume_destroy_decision [of ex_UUID ex_parse_date ex_clock ex_volumes "2 * hour"
      "[ex_volume_old, ex_volume_timeless]" undefined ex_volume_timeless]
  have n: "ex_volume_timeless \<in> set [ex_volume_old, ex_volume_timeless]
      \<and> map_of (volume_extra ex_volume_timeless) ''create_time'' = None
      \<and> map_of (volume_extra ex_volume_timeless) ''created_at'' = None"
    by (simp add: ex_volume_timeless_def)
  note q = u [THEN conjunct2, THEN mp, OF n]
  have d: "ex_volume_old \<in> set [ex_volume_old]" by simp
  from p q d show ?thesis by blast
qed

text \<open>
  Claim C4 as stated fails: \<open>ex_volume_timeless\<close> has no creation time, and instead of
  being kept it makes the planner raise \<^verbatim>\<open>KeyError\<close>, so no volume is placed anywhere.
\<close>

theorem timeless_volume_aborts_the_plan:
  "ex_volume_timeless \<in> set [ex_volume_old, ex_volume_timeless]
   \<and> map_of (volume_extra ex_volume_timeless) ''create_time'' = None
   \<and> map_of (volume_extra ex_volume_timeless) ''created_at'' = None
   \<and> filter_test_volumes ex_UUID ex_parse_date ex_clock ex_volumes (2 * hour)
       [ex_volume_old, ex_volume_timeless] = Inl KeyError"
  by code_simp

text \<open>
  Claim C5. An instance is selected as a test node if and only if it was listed, its name
  starts with one of the configured prefixes followed by the creator, and its state is
  Running or Terminated; an instance in any other state is never selected.
\<close>

theorem test_nodes_classification: 
  "(node \<in> set (test_nodes (map (\<lambda>prefix. prefix @ creator) prefixes) all_nodes) \<longleftrightarrow>
      node \<in> set all_nodes
      \<and> (\<exists>prefix \<in> set prefixes. \<exists>rest. node_name node = prefix @ creator @ rest)
      \<and> (node_state node = RUNNING \<or> node_state node = TERMINATED))
   \<and> (node_state node \<noteq> RUNNING \<and> node_state node \<noteq> TERMINATED \<longrightarrow>
        node \<notin> set (test_nodes (map (\<lambda>prefix. prefix @ creator) prefixes) all_nodes))"
  by (auto simp: test_nodes_def startswith_tuple_iff)

theorem test_nodes_classification_witness:
  "ex_node_terminated \<in> set (test_nodes (map (\<lambda>prefix. prefix @ ''alice'')
       [''acceptance-test-'', ''client-test-'']) [ex_node_terminated, ex_node_stopped])
   \<and> node_state ex_node_stopped \<noteq> RUNNING \<and> node_state ex_node_stopped \<noteq> TERMINATED
   \<and> ex_node_stopped \<notin> set (test_nodes (map (\<lambda>prefix. prefix @ ''alice'')
       [''acceptance-test-'', ''client-test-'']) [ex_node_terminated, ex_node_stopped])"
proof -
  have name: "node_name ex_node_terminated = ''acceptance-test-'' @ ''alice'' @ ''-worker-1''"
    by (simp add: ex_node_terminated_def)
  have state: "node_state ex_node_terminated = TERMINATED"
    by (simp add: ex_node_terminated_def)
  have stopped: "node_state ex_node_stopped \<noteq> RUNNING \<and> node_state ex_node_stopped \<noteq> TERMINATED"
    by (simp add: ex_node_stopped_def)
  show ?thesis
    using name state stopped
      test_nodes_classification [of ex_node_terminated "''alice''"
        "[''acceptance-test-'', ''client-test-'']" "[ex_node_terminated, ex_node_stopped]"]
      test_nodes_classification [of ex_node_stopped "''alice''"
        "[''acceptance-test-'', ''client-test-'']" "[ex_node_terminated, ex_node_stopped]"]
    by simp
qed

text \<open>
  Claim C6, as the code has it. With the clock fixed, a volume destroyed under a lag is
  destroyed under every smaller lag. An instance destroyed under a lag is destroyed
  under every smaller lag for which \<^verbatim>\<open>now - lag\<close> is still a date that Python can
  represent; for a lag so small that it is not, the planner raises \<^verbatim>\<open>OverflowError\<close> and
  returns no plan.
\<close>

theorem smaller_lag_still_destroys:
  "(filter_test_volumes UUID parse_date clock vself volume_lag volumes = Inr vplan
      \<and> v \<in> set (destroy vplan) \<and> volume_lag' < volume_lag \<longrightarrow>
      (\<exists>vplan'. filter_test_volumes UUID parse_date clock vself volume_lag' volumes = Inr vplan'
          \<and> v \<in> set (destroy vplan')))
   \<and> (instances_start connect parse_date clock self config dry_run = Inr plan
      \<and> n \<in> set (destroyed plan) \<and> instance_lag' < instances_lag self
      \<and> clock - instance_lag' \<le> datetime_max \<longrightarrow>
      (\<exists>plan'. instances_start connect parse_date clock (self\<lparr>instances_lag := instance_lag'\<rparr>)
                  config dry_run = Inr plan'
          \<and> n \<in> set (destroyed plan')))
   \<and> (instances_start connect parse_date clock self config dry_run = Inr plan
      \<and> datetime_max < clock - instance_lag' \<longrightarrow>
      instances_start connect parse_date clock (self\<lparr>instances_lag := instance_lag'\<rparr>)
        config dry_run = Inl OverflowError)"
  using volumes_smaller_lag [of UUID parse_date clock vself volume_lag volumes vplan v volume_lag']
    instances_smaller_lag [of connect parse_date clock self config dry_run plan n instance_lag']
    instances_lag_overflow [of connect parse_date clock self config dry_run plan instance_lag']
  by blast

theorem smaller_lag_still_destroys_witness:
  "hour < 2 * hour \<and> hour < instances_lag ex_instances \<and> ex_clock - hour \<le> datetime_max
   \<and> ex_volume_old \<in> set [ex_volume_old] \<and> ex_node_terminated \<in> set [ex_node_terminated]
   \<and> (\<exists>vplan'. filter_test_volumes ex_UUID ex_parse_date ex_clock ex_volumes hour
          [ex_volume_old, ex_volume_young, ex_volume_foreign] = Inr vplan'
        \<and> ex_volume_old \<in> set (destroy vplan'))
   \<and> (\<exists>plan'. instances_start ex_connect ex_parse_date ex_clock
          (ex_instances\<lparr>instances_lag := hour\<rparr>) ex_config False = Inr plan'
        \<and> ex_node_terminated \<in> set (destroyed plan'))
   \<and> datetime_max < ex_clock - instances_lag ex_instances_negative_lag
   \<and> instances_start ex_connect ex_parse_date ex_clock
        (ex_instances\<lparr>instances_lag := instances_lag ex_instances_negative_lag\<rparr>)
        ex_config False = Inl OverflowError"
proof -
  note t = smaller_lag_still_destroys [of ex_UUID ex_parse_date ex_clock ex_volumes "2 * hour"
      "[ex_volume_old, ex_volume_young, ex_volume_foreign]"
      "\<lparr>destroy = [ex_volume_old], keep = [ex_volume_young, ex_volume_foreign]\<rparr>"
      ex_volume_old hour
      ex_connect ex_instances ex_config False
      "\<lparr>destroyed = [ex_node_terminated], kept = [ex_node_ageless, ex_node_young]\<rparr>"
      ex_node_terminated hour]
  note u = smaller_lag_still_destroys [of ex_UUID ex_parse_date ex_clock ex_volumes "2 * hour"
      "[ex_volume_old, ex_volume_young, ex_volume_foreign]"
      "\<lparr>destroy = [ex_volume_old], keep = [ex_volume_young, ex_volume_foreign]\<rparr>"
      ex_volume_old hour
      ex_connect ex_instances ex_config False
      "\<lparr>destroyed = [ex_node_terminated], kept = [ex_node_ageless, ex_node_young]\<rparr>"
      ex_node_terminated "instances_lag ex_instances_negative_lag"]
  have h: "hour < 2 * hour" "hour < instances_lag ex_instances" "ex_clock - hour \<le> datetime_max"
    by (simp_all add: hour_def ex_instances_def ex_clock_def datetime_max_def)
  have o: "datetime_max < ex_clock - instances_lag ex_instances_negative_lag"
    by (simp add: hour_def ex_instances_negative_lag_def ex_clock_def datetime_max_def)
  have dv: "ex_volume_old \<in> set (destroy \<lparr>destroy = [ex_volume_old],
      keep = [ex_volume_young, ex_volume_foreign]\<rparr>)"
    by simp
  have dn: "ex_node_terminated \<in> set (destroyed \<lparr>destroyed = [ex_node_terminated],
      kept = [ex_node_ageless, ex_node_young]\<rparr>)"
    by simp
  note v = t [THEN conjunct1, THEN mp, OF conjI [OF ex_filter_plan conjI [OF dv h(1)]]]
  note i = t [THEN conjunct2, THEN conjunct1, THEN mp,
      OF conjI [OF ex_instances_plan conjI [OF dn conjI [OF h(2) h(3)]]]]
  note w = u [THEN conjunct2, THEN conjunct2, THEN mp, OF conjI [OF ex_instances_plan o]]
  have m: "ex_volume_old \<in> set [ex_volume_old]" "ex_node_terminated \<in> set [ex_node_terminated]"
    by simp_all
  from h m v i o w show ?thesis by blast
qed

text \<open>
  Claim C6 as stated fails for instances: with a lag of minus three million days the
  cutoff lies after the year 9999, \<^verbatim>\<open>now - self.lag\<close> raises \<^verbatim>\<open>OverflowError\<close> and no
  plan is computed, although the node is destroyed under the larger lag of two hours.
\<close>

theorem smaller_lag_overflows:
  "instances_start ex_connect ex_parse_date ex_clock ex_instances ex_config False =
     Inr \<lparr>destroyed = [ex_node_terminated], kept = [ex_node_ageless, ex_node_young]\<rparr>
   \<and> ex_node_terminated \<in> set [ex_node_terminated]
   \<and> instances_lag ex_instances_negative_lag < instances_lag ex_instances
   \<and> instances_prefixes ex_instances_negative_lag = instances_prefixes ex_instances
   \<and> instances_start ex_connect ex_parse_date ex_clock ex_instances_negative_lag ex_config False =
     Inl OverflowError"
  by code_simp

text \<open>
  Claim C7. Both planners return the same result whether \<open>dry_run\<close> is true or false.
\<close>

theorem dry_run_is_not_read:
  "instances_start connect parse_date clock self config True =
     instances_start connect parse_date clock self config False
   \<and> volumes_start connect UUID parse_date clock vself config True =
     volumes_start connect UUID parse_date clock vself config False"
  by (simp add: instances_start_def volumes_start_def)

theorem dry_run_is_not_read_witness:
  "instances_start ex_connect ex_parse_date ex_clock ex_instances ex_config True =
     Inr \<lparr>destroyed = [ex_node_terminated], kept = [ex_node_ageless, ex_node_young]\<rparr>
   \<and> volumes_start ex_connect ex_UUID ex_parse_date ex_clock ex_volumes ex_config True =
     Inr \<lparr>destroy = [ex_volume_old], keep = [ex_volume_young, ex_volume_foreign]\<rparr>"
  using dry_run_is_not_read [of ex_connect ex_parse_date ex_clock ex_instances ex_config
      ex_UUID ex_volumes] ex_instances_plan ex_volumes_plan
  by simp

text \<open>
  Claim C8 fails on the code. A run in which the providers list no node computes the
  empty plan, prints it, and then ends with an uncaught \<^verbatim>\<open>AttributeError\<close>: the exit
  status is 1 although nothing is to be destroyed.
\<close>

theorem empty_plan_exits_nonzero:
  "ex_parseOptions [''--config-file'', ''acceptance.yml''] = Inr ex_options
   \<and> instances_start ex_connect_empty ex_parse_date ex_clock
       \<lparr>instances_lag = opt_instance_lag ex_options,
        instances_prefixes = opt_instance_name_prefixes ex_options\<rparr>
       (opt_config_file ex_options) (opt_dry_run ex_options) =
     Inr \<lparr>destroyed = [], kept = []\<rparr>
   \<and> cleanup_cloud_resources_main ex_parseOptions ex_connect_empty ex_parse_date ex_isoformat
       ex_repr ex_clock [''--config-file'', ''acceptance.yml''] = Inl AttributeError
   \<and> exit_status
       (cleanup_cloud_resources_main ex_parseOptions ex_connect_empty ex_parse_date ex_isoformat
          ex_repr ex_clock [''--config-file'', ''acceptance.yml'']) = 1"
proof -
  have o: "ex_parseOptions [''--config-file'', ''acceptance.yml''] = Inr ex_options"
    by (simp add: ex_parseOptions_def)
  have p: "instances_start ex_connect_empty ex_parse_date ex_clock
       \<lparr>instances_lag = opt_instance_lag ex_options,
        instances_prefixes = opt_instance_name_prefixes ex_options\<rparr>
       (opt_config_file ex_options) (opt_dry_run ex_options) =
     Inr \<lparr>destroyed = [], kept = []\<rparr>"
    by code_simp
  note m = main_after_plan [of ex_parseOptions "[''--config-file'', ''acceptance.yml'']"
      ex_options ex_connect_empty ex_parse_date ex_clock "\<lparr>destroyed = [], kept = []\<rparr>"
      ex_isoformat ex_repr, OF o p]
  from m o p show ?thesis
    by simp
qed


text \<open>
  Claim C10. A returned plan is the stable partition of the enumeration by the
  destroy condition: the destroy list is the enumeration filtered by the condition, and
  the keep list is the enumeration filtered by its negation. For instances the
  enumeration is the nodes of the first provider followed by those of the second, and
  both lists hold selected test nodes only.
\<close>

theorem plans_keep_enumeration_order:
  "(filter_test_volumes UUID parse_date clock vself maximum_age volumes = Inr vplan \<longrightarrow>
      destroy vplan =
        filter (\<lambda>v. volume_is_old_test UUID parse_date vself (datetime_now clock) maximum_age v
                     = Inr True) volumes
      \<and> keep vplan =
        filter (\<lambda>v. volume_is_old_test UUID parse_date vself (datetime_now clock) maximum_age v
                     \<noteq> Inr True) volumes)
   \<and> (instances_start connect parse_date clock self config dry_run = Inr plan
      \<and> config_rackspace config = Some rackspace_config
      \<and> get_rackspace_driver connect rackspace_config = Inr rackspace
      \<and> config_aws config = Some aws_config
      \<and> get_ec2_driver connect aws_config = Inr ec2
      \<and> config_metadata config = Some metadata
      \<and> getitem metadata ''creator'' = Inr creator
      \<and> list_nodes rackspace = Inr rackspace_nodes
      \<and> list_nodes ec2 = Inr ec2_nodes \<longrightarrow>
      destroyed plan =
        filter (\<lambda>n. (startswith_tuple (node_name n)
                        (map (\<lambda>prefix. prefix @ creator) (instances_prefixes self))
                      \<and> (node_state n = RUNNING \<or> node_state n = TERMINATED))
                     \<and> node_is_old parse_date
                          \<lparr>wall = clock - instances_lag self, utcoffset = Some 0\<rparr> n = Inr True)
          (rackspace_nodes @ ec2_nodes)
      \<and> kept plan =
        filter (\<lambda>n. (startswith_tuple (node_name n)
                        (map (\<lambda>prefix. prefix @ creator) (instances_prefixes self))
                      \<and> (node_state n = RUNNING \<or> node_state n = TERMINATED))
                     \<and> node_is_old parse_date
                          \<lparr>wall = clock - instances_lag self, utcoffset = Some 0\<rparr> n \<noteq> Inr True)
          (rackspace_nodes @ ec2_nodes))"
proof (intro conjI impI)
  assume v: "filter_test_volumes UUID parse_date clock vself maximum_age volumes = Inr vplan"
  then have ok: "\<forall>v \<in> set volumes.
      \<exists>b. volume_is_old_test UUID parse_date vself (datetime_now clock) maximum_age v = Inr b"
    and d: "destroy vplan =
      filter (\<lambda>v. volume_is_old_test UUID parse_date vself (datetime_now clock) maximum_age v
                   = Inr True) volumes"
    and k: "keep vplan =
      filter (\<lambda>v. volume_is_old_test UUID parse_date vself (datetime_now clock) maximum_age v
                   = Inr False) volumes"
    by (simp_all add: filter_test_volumes_plan)
  show "destroy vplan =
      filter (\<lambda>v. volume_is_old_test UUID parse_date vself (datetime_now clock) maximum_age v
                   = Inr True) volumes"
    by (rule d)
  show "keep vplan =
      filter (\<lambda>v. volume_is_old_test UUID parse_date vself (datetime_now clock) maximum_age v
                   \<noteq> Inr True) volumes"
    unfolding k by (rule filter_not_True [OF ok])
next
  assume a: "instances_start connect parse_date clock self config dry_run = Inr plan
      \<and> config_rackspace config = Some rackspace_config
      \<and> get_rackspace_driver connect rackspace_config = Inr rackspace
      \<and> config_aws config = Some aws_config
      \<and> get_ec2_driver connect aws_config = Inr ec2
      \<and> config_metadata config = Some metadata
      \<and> getitem metadata ''creator'' = Inr creator
      \<and> list_nodes rackspace = Inr rackspace_nodes
      \<and> list_nodes ec2 = Inr ec2_nodes"
  define tn where "tn = test_nodes (map (\<lambda>prefix. prefix @ creator) (instances_prefixes self))
      (rackspace_nodes @ ec2_nodes)"
  from a have run: "instances_start connect parse_date clock self config dry_run = Inr plan"
    "config_rackspace config = Some rackspace_config"
    "get_rackspace_driver connect rackspace_config = Inr rackspace"
    "config_aws config = Some aws_config"
    "get_ec2_driver connect aws_config = Inr ec2"
    "config_metadata config = Some metadata"
    "getitem metadata ''creator'' = Inr creator"
    "list_nodes rackspace = Inr rackspace_nodes"
    "list_nodes ec2 = Inr ec2_nodes"
    by simp_all
  from instances_start_plan [OF run, folded tn_def] obtain cutoff where
    c: "datetime_sub_timedelta (datetime_now clock) (instances_lag self) = Inr cutoff"
    and ok: "\<forall>n \<in> set tn. \<exists>b. node_is_old parse_date cutoff n = Inr b"
    and d: "destroyed plan = filter (\<lambda>n. node_is_old parse_date cutoff n = Inr True) tn"
    and k: "kept plan = filter (\<lambda>n. node_is_old parse_date cutoff n = Inr False) tn"
    by (elim exE conjE) (rule that)
  from c have cutoff: "cutoff = \<lparr>wall = clock - instances_lag self, utcoffset = Some 0\<rparr>"
    by (simp add: cutoff_Inr)
  have k': "kept plan = filter (\<lambda>n. node_is_old parse_date cutoff n \<noteq> Inr True) tn"
    unfolding k by (rule filter_not_True [OF ok])
  show "destroyed plan =
        filter (\<lambda>n. (startswith_tuple (node_name n)
                        (map (\<lambda>prefix. prefix @ creator) (instances_prefixes self))
                      \<and> (node_state n = RUNNING \<or> node_state n = TERMINATED))
                     \<and> node_is_old parse_date
                          \<lparr>wall = clock - instances_lag self, utcoffset = Some 0\<rparr> n = Inr True)
          (rackspace_nodes @ ec2_nodes)"
    unfolding d tn_def test_nodes_def filter_filter cutoff by (rule refl)
  show "kept plan =
        filter (\<lambda>n. (startswith_tuple (node_name n)
                        (map (\<lambda>prefix. prefix @ creator) (instances_prefixes self))
                      \<and> (node_state n = RUNNING \<or> node_state n = TERMINATED))
                     \<and> node_is_old parse_date
                          \<lparr>wall = clock - instances_lag self, utcoffset = Some 0\<rparr> n \<noteq> Inr True)
          (rackspace_nodes @ ec2_nodes)"
    unfolding k' tn_def test_nodes_def filter_filter cutoff by (rule refl)
qed

theorem plans_keep_enumeration_order_witness:
  "filter_test_volumes ex_UUID ex_parse_date ex_clock ex_volumes (2 * hour)
       [ex_volume_old, ex_volume_young, ex_volume_foreign] =
     Inr \<lparr>destroy = [ex_volume_old], keep = [ex_volume_young, ex_volume_foreign]\<rparr>
   \<and> [ex_volume_old] =
     filter (\<lambda>v. volume_is_old_test ex_UUID ex_parse_date ex_volumes (datetime_now ex_clock)
                   (2 * hour) v = Inr True)
       [ex_volume_old, ex_volume_young, ex_volume_foreign]
   \<and> [ex_volume_young, ex_volume_foreign] =
     filter (\<lambda>v. volume_is_old_test ex_UUID ex_parse_date ex_volumes (datetime_now ex_clock)
                   (2 * hour) v \<noteq> Inr True)
       [ex_volume_old, ex_volume_young, ex_volume_foreign]
   \<and> instances_start ex_connect ex_parse_date ex_clock ex_instances ex_config False =
     Inr \<lparr>destroyed = [ex_node_terminated], kept = [ex_node_ageless, ex_node_young]\<rparr>
   \<and> [ex_node_terminated] =
     filter (\<lambda>n. (startswith_tuple (node_name n)
                     (map (\<lambda>prefix. prefix @ ''alice'') (instances_prefixes ex_instances))
                   \<and> (node_state n = RUNNING \<or> node_state n = TERMINATED))
                  \<and> node_is_old ex_parse_date
                       \<lparr>wall = ex_clock - instances_lag ex_instances, utcoffset = Some 0\<rparr> n
                     = Inr True)
       ([ex_node_terminated, ex_node_production, ex_node_ageless]
        @ [ex_node_stopped, ex_node_young])
   \<and> [ex_node_ageless, ex_node_young] =
     filter (\<lambda>n. (startswith_tuple (node_name n)
                     (map (\<lambda>prefix. prefix @ ''alice'') (instances_prefixes ex_instances))
                   \<and> (node_state n = RUNNING \<or> node_state n = TERMINATED))
                  \<and> node_is_old ex_parse_date
                       \<lparr>wall = ex_clock - instances_lag ex_instances, utcoffset = Some 0\<rparr> n
                     \<noteq> Inr True)
       ([ex_node_terminated, ex_node_production, ex_node_ageless]
        @ [ex_node_stopped, ex_node_young])"
proof -
  note t = plans_keep_enumeration_order [of ex_UUID ex_parse_date ex_clock ex_volumes "2 * hour"
        "[ex_volume_old, ex_volume_young, ex_volume_foreign]"
        "\<lparr>destroy = [ex_volume_old], keep = [ex_volume_young, ex_volume_foreign]\<rparr>"
        ex_connect ex_instances ex_config False
        "\<lparr>destroyed = [ex_node_terminated], kept = [ex_node_ageless, ex_node_young]\<rparr>"
        "[(''username'', ''u''), (''key'', ''k''), (''region'', ''dfw'')]" ex_rackspace
        "[(''access_key'', ''a''), (''secret_access_token'', ''s''), (''region'', ''us-west-2'')]"
        ex_ec2 "[(''creator'', ''alice'')]" "''alice''"
        "[ex_node_terminated, ex_node_production, ex_node_ageless]"
        "[ex_node_stopped, ex_node_young]"]
  note v = t [THEN conjunct1, THEN mp, OF ex_filter_plan, unfolded VolumeActions.select_convs]
  have "instances_start ex_connect ex_parse_date ex_clock ex_instances ex_config False =
       Inr \<lparr>destroyed = [ex_node_terminated], kept = [ex_node_ageless, ex_node_young]\<rparr>
      \<and> config_rackspace ex_config =
         Some [(''username'', ''u''), (''key'', ''k''), (''region'', ''dfw'')]
      \<and> get_rackspace_driver ex_connect
         [(''username'', ''u''), (''key'', ''k''), (''region'', ''dfw'')] = Inr ex_rackspace
      \<and> config_aws ex_config =
         Some [(''access_key'', ''a''), (''secret_access_token'', ''s''),
               (''region'', ''us-west-2'')]
      \<and> get_ec2_driver ex_connect
         [(''access_key'', ''a''), (''secret_access_token'', ''s''), (''region'', ''us-west-2'')] =
         Inr ex_ec2
      \<and> config_metadata ex_config = Some [(''creator'', ''alice'')]
      \<and> getitem [(''creator'', ''alice'')] ''creator'' = Inr ''alice''
      \<and> list_nodes ex_rackspace = Inr [ex_node_terminated, ex_node_production, ex_node_ageless]
      \<and> list_nodes ex_ec2 = Inr [ex_node_stopped, ex_node_young]"
    by (intro conjI ex_instances_plan ex_run)
  note i = t [THEN conjunct2, THEN mp, OF this, unfolded node_actions.select_convs]
  show ?thesis
    by (rule conjI [OF ex_filter_plan conjI [OF v [THEN conjunct1] conjI [OF v [THEN conjunct2]
        conjI [OF ex_instances_plan i]]]])
qed

end
